theory Spec2Isabelle
  imports Complex_Main
begin

section \<open>Air-Sentinel: a shallow embedding of main.py\<close>

text \<open>
  The firmware is one Python module: a dictionary \<open>state\<close>, a handful of functions that
  mutate it, and a polling loop. The embedding keeps that shape. The dictionary is a
  record, every function takes the device and returns the updated device, and everything
  the code reads from the outside (the tick counter, the button, the converter, the
  network, the outcome of a file write) is an explicit argument.

  Conventions:
  \<^item> Python floats are modelled as \<open>real\<close>: comparisons, sums and quotients are exact.
  \<^item> Tick counts (\<open>utime.ticks_ms()\<close>) are \<open>int\<close>.
  \<^item> A Python \<open>str\<close> is a \<open>string\<close>; a \<open>char\<close> stands for a code point below 256.
  \<^item> The display (\<open>oled\<close>) and the sleeps are not modelled: no operation reads them back.
\<close>

subsection \<open>Data\<close>

text \<open>The dictionary \<open>state["config"]\<close> (line 31): keys ssid, pass, lat, lon, auto, offset.\<close>

record config_t =
  cfg_ssid :: string
  cfg_pass :: string
  cfg_lat :: string
  cfg_lon :: string
  cfg_auto :: bool
  cfg_offset :: real

text \<open>
  What \<open>json.load\<close> yields for the config file: a file that exists and does not parse
  raises ValueError (\<open>Corrupt\<close>); otherwise an object that holds some of the six keys,
  which \<open>dict.update\<close> merges into the defaults.
\<close>

record saved_t =
  sv_ssid :: "string option"
  sv_pass :: "string option"
  sv_lat :: "string option"
  sv_lon :: "string option"
  sv_auto :: "bool option"
  sv_offset :: "real option"

datatype file_content = Corrupt | Object saved_t

text \<open>\<open>utime.localtime()\<close>: the fields the code formats.\<close>

record localtime_t =
  lt_year :: nat
  lt_month :: nat
  lt_mday :: nat
  lt_hour :: nat
  lt_minute :: nat
  lt_second :: nat

text \<open>
  One line of cal_history.txt (line 39): the minute-resolution time stamp and the offset.
  The line's text rendering (zero padding, four decimals) is not modelled.
\<close>

type_synonym log_entry = "(nat \<times> nat \<times> nat \<times> nat \<times> nat) \<times> real"

text \<open>The record printed as telemetry (lines 245-249); None for rssi is the marker "DISC".\<close>

record telemetry_t =
  tm_ts :: localtime_t
  tm_dust :: real
  tm_cat :: string
  tm_cal :: real
  tm_temp :: string
  tm_weather :: string
  tm_rssi :: "int option"
  tm_auto :: bool

text \<open>
  The dictionary \<open>state\<close> (lines 25-32) together with what the module owns outside it:
  the six output pins, the two files and the serial output. The key \<open>last_serial\<close> is
  absent until the first telemetry record is printed. The keys \<open>networks\<close> and
  \<open>last_scan_time\<close> are used by the Wi-Fi scan view only and are left out.
\<close>

record device =
  mode :: nat
  auto_cycle :: bool
  msg_timer :: int
  msg_text :: string
  dust_val :: real
  dust_history :: "real list"
  dust_offset :: real
  weather_temp :: string
  weather_desc :: string
  last_weather_update :: int
  last_ntp_update :: int
  last_mode_change :: int
  last_serial :: "int option"
  config :: config_t
  control_pins :: "nat list"
  config_file :: "file_content option"
  log_file :: "log_entry list option"
  serial_out :: "telemetry_t list"

datatype py_error = ValueError | KeyError | IndexError | OSError

text \<open>
  What \<open>float(x)\<close> gives for a string: a number, one of the floats that are not real
  numbers (an infinity or not-a-number), or ValueError.
\<close>

datatype float_result = FloatNum real | FloatInfNan | FloatValueError

text \<open>
  What one \<open>save_config\<close> call takes from the platform: the clock, whether each of its
  two file writes succeeds, and the built-in \<open>float\<close> on strings, which is not code of
  this module.
\<close>

record io_t =
  io_clock :: localtime_t
  io_log_ok :: bool
  io_cfg_ok :: bool
  io_float :: "string \<Rightarrow> float_result"

subsection \<open>Classifier and outputs (lines 65-77)\<close>

definition get_aqi_category :: "real \<Rightarrow> string \<times> nat" where
  "get_aqi_category c =
     (if c \<le> 12.0 then (''GOOD'', 0)
      else if c \<le> 35.4 then (''MODERATE'', 1)
      else if c \<le> 55.4 then (''UNHEALTHY-S'', 2)
      else if c \<le> 150.4 then (''UNHEALTHY'', 3)
      else if c \<le> 250.4 then (''V. UNHEALTHY'', 4)
      else (''HAZARDOUS'', 5))"

definition update_hardware :: "real \<Rightarrow> device \<Rightarrow> string \<times> device" where
  "update_hardware c d =
     (let (cat_str, level) = get_aqi_category c
      in (cat_str,
          d\<lparr>control_pins :=
               map (\<lambda>(i, pin). if i = level then 1 else 0) (enumerate 0 (control_pins d))\<rparr>))"

subsection \<open>Built-ins of the platform\<close>

text \<open>
  Modelled from the spec: \<open>utime.ticks_diff\<close> belongs to the platform, not to this
  repository. The spec reads it as a difference of time stamps
  ("duration = now - start", "now - lastRunTimestamp"); the wrap-around of the
  platform's tick counter is not modelled.
\<close>

definition ticks_diff :: "int \<Rightarrow> int \<Rightarrow> int" where
  "ticks_diff t1 t2 = t1 - t2"

text \<open>The characters that \<open>int\<close> and \<open>float\<close> strip: the code points below 256 for which
  \<open>str.isspace\<close> holds (9 to 13, 28 to 32, 133 and 160).\<close>

definition is_space :: "char \<Rightarrow> bool" where
  "is_space c =
     (let n = (of_char c :: nat)
      in (9 \<le> n \<and> n \<le> 13) \<or> (28 \<le> n \<and> n \<le> 32) \<or> n = 133 \<or> n = 160)"

definition strip :: "string \<Rightarrow> string" where
  "strip s = rev (dropWhile is_space (rev (dropWhile is_space s)))"

definition is_digit :: "char \<Rightarrow> bool" where
  "is_digit c = (48 \<le> (of_char c :: nat) \<and> (of_char c :: nat) \<le> 57)"

definition hex_val :: "char \<Rightarrow> nat option" where
  "hex_val c =
     (let n = (of_char c :: nat)
      in if 48 \<le> n \<and> n \<le> 57 then Some (n - 48)
         else if 97 \<le> n \<and> n \<le> 102 then Some (n - 87)
         else if 65 \<le> n \<and> n \<le> 70 then Some (n - 55)
         else None)"

text \<open>
  \<open>int(x, 16)\<close> on a string: surrounding white space, a sign and the prefix 0x are
  accepted, then at least one hexadecimal digit and nothing else; anything else raises
  ValueError (None). Underscores between digits, which Python's literals allow, are
  rejected here; the two-character slices that \<open>url_decode\<close> passes cannot hold one
  between two digits.
\<close>

definition hex_digits_val :: "string \<Rightarrow> nat" where
  "hex_digits_val ds = foldl (\<lambda>acc c. 16 * acc + the (hex_val c)) 0 ds"

definition py_int16 :: "string \<Rightarrow> int option" where
  "py_int16 x =
     (let t = strip x;
          neg = (t \<noteq> [] \<and> hd t = CHR ''-'');
          u = (if t \<noteq> [] \<and> (hd t = CHR ''-'' \<or> hd t = CHR ''+'') then tl t else t);
          ds = (if take 2 u = ''0x'' \<or> take 2 u = ''0X'' then drop 2 u else u)
      in if ds \<noteq> [] \<and> list_all (\<lambda>c. hex_val c \<noteq> None) ds
         then Some (if neg then - int (hex_digits_val ds) else int (hex_digits_val ds))
         else None)"

text \<open>
  \<open>chr(n)\<close>: a negative argument raises ValueError. Code points from 256 on have no
  \<open>char\<close>; two hexadecimal digits never reach them.
\<close>

definition py_chr :: "int \<Rightarrow> char option" where
  "py_chr n = (if 0 \<le> n \<and> n \<le> 255 then Some (char_of (nat n)) else None)"

definition dec_digits_val :: "string \<Rightarrow> nat" where
  "dec_digits_val ds = foldl (\<lambda>acc c. 10 * acc + ((of_char c :: nat) - 48)) 0 ds"

text \<open>\<open>str(n)\<close> for an int, and \<open>int(x)\<close> for a float (truncation towards zero).\<close>

fun show_nat :: "nat \<Rightarrow> string" where
  "show_nat n = (if n < 10 then [char_of (48 + n)]
                 else show_nat (n div 10) @ [char_of (48 + n mod 10)])"

definition show_int :: "int \<Rightarrow> string" where
  "show_int i = (if i < 0 then CHR ''-'' # show_nat (nat (- i)) else show_nat (nat i))"

definition py_int_of_float :: "real \<Rightarrow> int" where
  "py_int_of_float r = (if r < 0 then \<lceil>r\<rceil> else \<lfloor>r\<rfloor>)"

text \<open>\<open>round(x, n)\<close>: to the nearest multiple of \<open>10^-n\<close>, ties to the even one.\<close>

definition round_half_even :: "real \<Rightarrow> int" where
  "round_half_even x =
     (let f = \<lfloor>x\<rfloor>; r = x - of_int f
      in if r < 1 / 2 then f else if 1 / 2 < r then f + 1 else if even f then f else f + 1)"

definition py_round :: "real \<Rightarrow> nat \<Rightarrow> real" where
  "py_round x n = of_int (round_half_even (x * 10 ^ n)) / 10 ^ n"

text \<open>\<open>x.split(sep)\<close> for a one-character separator, and \<open>pat in x\<close> for strings.\<close>

fun split_on :: "char \<Rightarrow> string \<Rightarrow> string list" where
  "split_on sep [] = [[]]"
| "split_on sep (c # cs) =
     (if c = sep then [] # split_on sep cs
      else (case split_on sep cs of
              [] \<Rightarrow> [[c]]
            | w # ws \<Rightarrow> (c # w) # ws))"

fun contains :: "string \<Rightarrow> string \<Rightarrow> bool" where
  "contains pat [] = (pat = [])"
| "contains pat (c # cs) = (take (length pat) (c # cs) = pat \<or> contains pat cs)"

definition index_or :: "'a list \<Rightarrow> nat \<Rightarrow> py_error + 'a" where
  "index_or xs i = (if i < length xs then Inr (xs ! i) else Inl IndexError)"

definition bind_err :: "'e + 'a \<Rightarrow> ('a \<Rightarrow> 'e + 'b) \<Rightarrow> 'e + 'b" where
  "bind_err m f = (case m of Inl e \<Rightarrow> Inl e | Inr a \<Rightarrow> f a)"

text \<open>
  \<open>float(x)\<close> on a string, as the language defines it: white space is stripped, a sign
  may lead, then either \<open>inf\<close>, \<open>infinity\<close> or \<open>nan\<close> in any case, or a decimal
  number: digits with an optional point and an optional exponent, where single
  underscores may stand between digits. A number beyond the largest double reads as
  infinity. Anything else raises ValueError. Rounding to the nearest double is left
  out, as everywhere. This is the \<open>float\<close> of the sample inputs; the operations take
  theirs from \<open>io_float\<close>.
\<close>

definition to_lower :: "char \<Rightarrow> char" where
  "to_lower c =
     (let n = (of_char c :: nat) in if 65 \<le> n \<and> n \<le> 90 then char_of (n + 32) else c)"

definition digitpart :: "string \<Rightarrow> bool" where
  "digitpart ds =
     (ds \<noteq> [] \<and> is_digit (hd ds) \<and> is_digit (last ds)
      \<and> list_all (\<lambda>c. is_digit c \<or> c = CHR ''_'') ds \<and> \<not> contains ''__'' ds)"

definition float_limit :: real where
  "float_limit = 2 ^ 1024 - 2 ^ 970"

definition py_float_str :: "string \<Rightarrow> float_result" where
  "py_float_str x =
     (let t = strip x;
          neg = (t \<noteq> [] \<and> hd t = CHR ''-'');
          u = (if t \<noteq> [] \<and> (hd t = CHR ''-'' \<or> hd t = CHR ''+'') then tl t else t);
          w = map to_lower u;
          m = takeWhile (\<lambda>c. c \<noteq> CHR ''e'') w;
          r = dropWhile (\<lambda>c. c \<noteq> CHR ''e'') w;
          ip = takeWhile (\<lambda>c. c \<noteq> CHR ''.'') m;
          fp = drop 1 (dropWhile (\<lambda>c. c \<noteq> CHR ''.'') m);
          eneg = (2 \<le> length r \<and> r ! 1 = CHR ''-'');
          ed = (if 2 \<le> length r \<and> (r ! 1 = CHR ''-'' \<or> r ! 1 = CHR ''+'')
                then drop 2 r else drop 1 r);
          mant = real (dec_digits_val (filter is_digit ip))
                 + real (dec_digits_val (filter is_digit fp)) / 10 ^ length (filter is_digit fp);
          mag = (if r = [] then mant
                 else if eneg then mant / 10 ^ dec_digits_val (filter is_digit ed)
                 else mant * 10 ^ dec_digits_val (filter is_digit ed))
      in if w = ''inf'' \<or> w = ''infinity'' \<or> w = ''nan'' then FloatInfNan
         else if (ip \<noteq> [] \<or> fp \<noteq> []) \<and> (ip = [] \<or> digitpart ip)
                 \<and> (fp = [] \<or> digitpart fp) \<and> (r = [] \<or> digitpart ed)
         then (if float_limit \<le> mag then FloatInfNan
               else FloatNum (if neg then - mag else mag))
         else FloatValueError)"

text \<open>
  The argument \<open>offset\<close> of \<open>save_config\<close> is a float when the calibration passes it
  and when the portal falls back to 0.6, and the raw query string otherwise.
  \<open>float(offset)\<close> returns a float as it is.
\<close>

datatype offset_arg = OffNum real | OffStr string

fun py_float :: "io_t \<Rightarrow> offset_arg \<Rightarrow> float_result" where
  "py_float io (OffNum r) = FloatNum r"
| "py_float io (OffStr x) = io_float io x"

subsection \<open>Calibration and storage (lines 35-62, 79-101)\<close>

definition log_calibration :: "io_t \<Rightarrow> real \<Rightarrow> device \<Rightarrow> device" where
  "log_calibration io off d =
     (let t = io_clock io;
          ts = (lt_year t, lt_month t, lt_mday t, lt_hour t, lt_minute t)
      in if io_log_ok io
         then d\<lparr>log_file := Some ((case log_file d of None \<Rightarrow> [] | Some es \<Rightarrow> es) @ [(ts, off)])\<rparr>
         else d)"

text \<open>
  The \<open>json.dump\<close> of \<open>state["config"]\<close> at the end of \<open>save_config\<close>: all six keys are
  written. A failed write is taken to leave the file as it was.
\<close>

definition dump_config :: "config_t \<Rightarrow> file_content" where
  "dump_config c =
     Object \<lparr>sv_ssid = Some (cfg_ssid c), sv_pass = Some (cfg_pass c),
             sv_lat = Some (cfg_lat c), sv_lon = Some (cfg_lon c),
             sv_auto = Some (cfg_auto c), sv_offset = Some (cfg_offset c)\<rparr>"

definition write_config :: "io_t \<Rightarrow> device \<Rightarrow> device" where
  "write_config io d =
     (if io_cfg_ok io then d\<lparr>config_file := Some (dump_config (config d))\<rparr> else d)"

text \<open>
  How a call of \<open>save_config\<close> ends. \<open>float(offset)\<close> raises ValueError after the other
  keys have been stored in memory and before any file is written. When \<open>float\<close>
  returns an infinity or not-a-number the program goes on to store, log and write it;
  the offsets of this model are real numbers, so the model stops there
  (\<open>OffsetNotReal\<close>, with the device as it is when \<open>float\<close> returns) and says nothing
  about what follows.
\<close>

datatype save_exit = Returned | Raised py_error | OffsetNotReal

definition save_config ::
  "io_t \<Rightarrow> string option \<Rightarrow> string option \<Rightarrow> string option \<Rightarrow> string option \<Rightarrow>
   bool option \<Rightarrow> offset_arg option \<Rightarrow> device \<Rightarrow> save_exit \<times> device" where
  "save_config io ssid password lat lon auto offset d =
     (let c1 = (case ssid of None \<Rightarrow> config d | Some x \<Rightarrow> (config d)\<lparr>cfg_ssid := x\<rparr>);
          c2 = (case password of None \<Rightarrow> c1 | Some x \<Rightarrow> c1\<lparr>cfg_pass := x\<rparr>);
          c3 = (case lat of None \<Rightarrow> c2 | Some x \<Rightarrow> c2\<lparr>cfg_lat := x\<rparr>);
          c4 = (case lon of None \<Rightarrow> c3 | Some x \<Rightarrow> c3\<lparr>cfg_lon := x\<rparr>);
          c5 = (case auto of None \<Rightarrow> c4 | Some x \<Rightarrow> c4\<lparr>cfg_auto := x\<rparr>)
      in case offset of
           None \<Rightarrow> (Returned, write_config io (d\<lparr>config := c5\<rparr>))
         | Some a \<Rightarrow>
             (case py_float io a of
                FloatValueError \<Rightarrow> (Raised ValueError, d\<lparr>config := c5\<rparr>)
              | FloatInfNan \<Rightarrow> (OffsetNotReal, d\<lparr>config := c5\<rparr>)
              | FloatNum f \<Rightarrow>
                  (Returned, write_config io
                     (log_calibration io f (d\<lparr>config := c5\<lparr>cfg_offset := f\<rparr>\<rparr>)))))"

text \<open>What the calibration reads: the converter, sample by sample, the outcome of its
  file writes, and the tick counter when it finishes (line 62).\<close>

record cal_env =
  cal_adc :: "nat \<Rightarrow> nat"
  cal_io :: io_t
  cal_done :: int

text \<open>The sample loop (lines 49-57): \<open>collect_samples adc n\<close> is \<open>samples\<close> after n rounds.\<close>

primrec collect_samples :: "(nat \<Rightarrow> nat) \<Rightarrow> nat \<Rightarrow> real list" where
  "collect_samples adc 0 = []"
| "collect_samples adc (Suc i) = collect_samples adc i @ [(real (adc i) / 65535) * 3.3]"

definition calibrate_sensor :: "cal_env \<Rightarrow> device \<Rightarrow> device" where
  "calibrate_sensor e d =
     (let d0 = d\<lparr>control_pins := map (\<lambda>pin. 0) (control_pins d)\<rparr>;
          samples = collect_samples (cal_adc e) 500;
          avg = sum_list samples / real (length samples);
          d1 = d0\<lparr>dust_offset := avg\<rparr>;
          d2 = snd (save_config (cal_io e) None None None None None (Some (OffNum avg)) d1)
      in d2\<lparr>msg_text := ''CAL & LOGGED!'', msg_timer := cal_done e + 2000\<rparr>)"

definition merge_saved :: "saved_t \<Rightarrow> config_t \<Rightarrow> config_t" where
  "merge_saved sv c =
     \<lparr>cfg_ssid = (case sv_ssid sv of None \<Rightarrow> cfg_ssid c | Some x \<Rightarrow> x),
      cfg_pass = (case sv_pass sv of None \<Rightarrow> cfg_pass c | Some x \<Rightarrow> x),
      cfg_lat = (case sv_lat sv of None \<Rightarrow> cfg_lat c | Some x \<Rightarrow> x),
      cfg_lon = (case sv_lon sv of None \<Rightarrow> cfg_lon c | Some x \<Rightarrow> x),
      cfg_auto = (case sv_auto sv of None \<Rightarrow> cfg_auto c | Some x \<Rightarrow> x),
      cfg_offset = (case sv_offset sv of None \<Rightarrow> cfg_offset c | Some x \<Rightarrow> x)\<rparr>"

definition load_config :: "io_t \<Rightarrow> device \<Rightarrow> device" where
  "load_config io d =
     (case config_file d of
        None \<Rightarrow> snd (save_config io None None None None None None d)
      | Some Corrupt \<Rightarrow> snd (save_config io None None None None None None d)
      | Some (Object sv) \<Rightarrow>
          (let c = merge_saved sv (config d)
           in d\<lparr>config := c, auto_cycle := cfg_auto c, dust_offset := cfg_offset c\<rparr>))"

text \<open>The module's state when it starts (lines 25-32), over the files it finds, and the
  start-up call of \<open>load_config\<close> (line 206).\<close>

definition initial_device ::
  "int \<Rightarrow> file_content option \<Rightarrow> log_entry list option \<Rightarrow> device" where
  "initial_device boot cf lf =
     \<lparr>mode = 0, auto_cycle = False, msg_timer = 0, msg_text = [], dust_val = 0,
      dust_history = replicate 60 0, dust_offset = 0.6, weather_temp = ''--C'',
      weather_desc = ''Syncing...'', last_weather_update = - 900000,
      last_ntp_update = - 86400000, last_mode_change = boot, last_serial = None,
      config = \<lparr>cfg_ssid = [], cfg_pass = [], cfg_lat = ''51.7520'', cfg_lon = ''-1.2577'',
                 cfg_auto = False, cfg_offset = 0.6\<rparr>,
      control_pins = replicate 6 0, config_file = cf, log_file = lf, serial_out = []\<rparr>"

definition startup ::
  "io_t \<Rightarrow> int \<Rightarrow> file_content option \<Rightarrow> log_entry list option \<Rightarrow> device" where
  "startup io boot cf lf = load_config io (initial_device boot cf lf)"

subsection \<open>The setup portal (lines 103-148)\<close>

text \<open>
  The loop of \<open>url_decode\<close> (lines 106-109), on the part of \<open>s\<close> from index \<open>i\<close> on:
  the test \<open>i+2 < len(s)\<close> says that at least two characters follow \<open>s[i]\<close>.
  \<open>int\<close> and \<open>chr\<close> raise ValueError on a malformed escape.
\<close>

fun url_decode_loop :: "string \<Rightarrow> py_error + string" where
  "url_decode_loop [] = Inr []"
| "url_decode_loop (c # cs) =
     (if c = CHR ''%'' \<and> 2 \<le> length cs
      then (case py_int16 (take 2 cs) of
              None \<Rightarrow> Inl ValueError
            | Some n \<Rightarrow>
                (case py_chr n of
                   None \<Rightarrow> Inl ValueError
                 | Some ch \<Rightarrow>
                     (case url_decode_loop (drop 2 cs) of
                        Inl e \<Rightarrow> Inl e
                      | Inr res \<Rightarrow> Inr (ch # res))))
      else (case url_decode_loop cs of
              Inl e \<Rightarrow> Inl e
            | Inr res \<Rightarrow> Inr (c # res)))"

definition url_decode :: "string \<Rightarrow> py_error + string" where
  "url_decode s = url_decode_loop (map (\<lambda>c. if c = CHR ''+'' then CHR '' '' else c) s)"

text \<open>The dictionary comprehension of line 132: a later pair overrides an earlier one;
  a part without \<open>=\<close> raises IndexError.\<close>

fun query_dict :: "string list \<Rightarrow> py_error + (string \<rightharpoonup> string)" where
  "query_dict [] = Inr Map.empty"
| "query_dict (u # us) =
     (case index_or (split_on CHR ''='' u) 1 of
        Inl e \<Rightarrow> Inl e
      | Inr v \<Rightarrow>
          (case query_dict us of
             Inl e \<Rightarrow> Inl e
           | Inr p \<Rightarrow> Inr ((Map.empty(hd (split_on CHR ''='' u) \<mapsto> v)) ++ p)))"

definition lookup :: "(string \<rightharpoonup> string) \<Rightarrow> string \<Rightarrow> py_error + string" where
  "lookup p k = (case p k of None \<Rightarrow> Inl KeyError | Some v \<Rightarrow> Inr v)"

text \<open>Lines 131-133 up to the call of \<open>save_config\<close>: the five arguments, in the order
  in which the code evaluates them.\<close>

definition save_arguments ::
  "string \<Rightarrow> py_error + (string \<times> string \<times> string \<times> string \<times> offset_arg)" where
  "save_arguments req =
     bind_err (index_or (split_on CHR '' '' (hd (split_on (CHR 0x0A) req))) 1) (\<lambda>target.
     bind_err (index_or (split_on CHR ''?'' target) 1) (\<lambda>query.
     bind_err (query_dict (split_on CHR ''&'' query)) (\<lambda>p.
     bind_err (bind_err (lookup p ''s'') url_decode) (\<lambda>a_ssid.
     bind_err (bind_err (lookup p ''p'') url_decode) (\<lambda>a_pass.
     bind_err (bind_err (lookup p ''la'') url_decode) (\<lambda>a_lat.
     bind_err (bind_err (lookup p ''lo'') url_decode) (\<lambda>a_lon.
       Inr (a_ssid, a_pass, a_lat, a_lon,
            (case p ''os'' of None \<Rightarrow> OffNum 0.6 | Some x \<Rightarrow> OffStr x)))))))))"

text \<open>What the portal sends, and how one pass through the body of its loop (lines
  124-145) ends for a request that has been received: with an answer, with an answer
  and \<open>machine.reset()\<close>, or with an exception that \<open>except: pass\<close> swallows.
  \<open>NotFollowed\<close> marks the request whose offset is not a real number, where the model
  of \<open>save_config\<close> stops.\<close>

datatype response =
    LogText "log_entry list"
  | NoHistory
  | SavedRebooting
  | FormPage string string string real

datatype portal_step =
    Replied response device
  | Reboot response device
  | Swallowed py_error device
  | NotFollowed device

definition handle_request :: "io_t \<Rightarrow> bool \<Rightarrow> string \<Rightarrow> device \<Rightarrow> portal_step" where
  "handle_request io send_ok req d =
     (if contains ''GET /logs'' req
      then (if send_ok
            then Replied (case log_file d of None \<Rightarrow> NoHistory | Some es \<Rightarrow> LogText es) d
            else Swallowed OSError d)
      else if contains ''GET /?s='' req
      then (case save_arguments req of
              Inl e \<Rightarrow> Swallowed e d
            | Inr (a_ssid, a_pass, a_lat, a_lon, a_off) \<Rightarrow>
                (case save_config io (Some a_ssid) (Some a_pass) (Some a_lat) (Some a_lon)
                        None (Some a_off) d of
                   (Raised e, d') \<Rightarrow> Swallowed e d'
                 | (OffsetNotReal, d') \<Rightarrow> NotFollowed d'
                 | (Returned, d') \<Rightarrow>
                     if send_ok then Reboot SavedRebooting d' else Swallowed OSError d'))
      else (if send_ok
            then Replied (FormPage (cfg_ssid (config d)) (cfg_lat (config d))
                            (cfg_lon (config d)) (dust_offset d)) d
            else Swallowed OSError d))"

subsection \<open>Background tasks (lines 155-168)\<close>

text \<open>What \<open>urequests.get(url).json()\<close> gives: an exception, or a body; the body may lack
  \<open>current_weather\<close>, and that object may lack a temperature that \<open>int\<close> accepts or a
  weather code.\<close>

record current_weather =
  temperature :: "real option"
  weathercode :: "int option"

datatype weather_reply = RequestFailed | Body "current_weather option"

text \<open>What \<open>sync_data\<close> reads: its own tick count (line 156), the link state, whether
  \<open>ntptime.settime()\<close> succeeds, and the weather service's answer.\<close>

record net_env =
  sync_now :: int
  connected :: bool
  ntp_ok :: bool
  weather :: weather_reply

definition weather_text :: "int \<Rightarrow> string" where
  "weather_text code =
     (case map_of [(0, ''Clear''), (1, ''Mainly Clear''), (2, ''Partly Cloud''),
                   (3, ''Overcast''), (61, ''Rainy'')] code of
        None \<Rightarrow> ''Cloudy'' | Some x \<Rightarrow> x)"

text \<open>The body of the second \<open>try\<close> (lines 163-167): the assignments made before an
  exception stay.\<close>

definition fetch_weather :: "net_env \<Rightarrow> device \<Rightarrow> device" where
  "fetch_weather e d =
     (case weather e of
        RequestFailed \<Rightarrow> d
      | Body None \<Rightarrow> d
      | Body (Some cw) \<Rightarrow>
          (case temperature cw of
             None \<Rightarrow> d
           | Some t \<Rightarrow>
               (let d1 = d\<lparr>weather_temp := show_int (py_int_of_float t) @ ''C''\<rparr>
                in case weathercode cw of
                     None \<Rightarrow> d1
                   | Some code \<Rightarrow>
                       d1\<lparr>weather_desc := weather_text code,
                          last_weather_update := sync_now e\<rparr>)))"

definition sync_data :: "net_env \<Rightarrow> device \<Rightarrow> device" where
  "sync_data e d =
     (if \<not> connected e then d
      else
        (let d1 = (if ticks_diff (sync_now e) (last_ntp_update d) > 86400000
                   then (if ntp_ok e then d\<lparr>last_ntp_update := sync_now e\<rparr> else d)
                   else d)
         in if ticks_diff (sync_now e) (last_weather_update d1) > 900000
            then fetch_weather e d1
            else d1))"

subsection \<open>The main loop (lines 203-267)\<close>

datatype view = view_dashboard | view_weather | view_graph | view_wifi_diag | view_wifi_scan

definition VIEWS :: "view list" where
  "VIEWS = [view_dashboard, view_weather, view_graph, view_wifi_diag, view_wifi_scan]"

definition AUTO_VIEWS :: "view list" where
  "AUTO_VIEWS = [view_dashboard, view_weather, view_graph]"

text \<open>\<open>xs.index(x)\<close> for an \<open>x\<close> that occurs in \<open>xs\<close>.\<close>

fun index_of :: "'a list \<Rightarrow> 'a \<Rightarrow> nat" where
  "index_of [] x = 0"
| "index_of (y # ys) x = (if y = x then 0 else Suc (index_of ys x))"

text \<open>The loop's own variables (line 210).\<close>

record loop_vars =
  last_btn_state :: bool
  btn_start :: int
  click_count :: nat
  last_click :: int

text \<open>What one pass through the loop reads from outside.\<close>

record tick_env =
  now :: int
  curr_btn :: bool
  adc :: nat
  net :: net_env
  clock :: localtime_t
  rssi :: "int option"
  cal :: cal_env
  tap_io :: io_t

text \<open>
  The events of the gesture machine. \<open>Click\<close> marks a release that is counted as a
  click; the other four are the gestures that act.
\<close>

datatype event = Click | ShortTap | DoubleTap | CalibrationHold | PortalHold

text \<open>
  Lines 214-221. With \<open>PortalHold\<close> the code has entered \<open>run_setup_ap\<close>, which does not
  return: the loop variables and the device are those at that moment.
\<close>

definition button_edge ::
  "tick_env \<Rightarrow> loop_vars \<Rightarrow> device \<Rightarrow> event option \<times> loop_vars \<times> device" where
  "button_edge e v d =
     (if curr_btn e \<noteq> last_btn_state v
      then
        (if curr_btn e
         then (None, v\<lparr>btn_start := now e, last_btn_state := curr_btn e\<rparr>, d)
         else
           (let dur = ticks_diff (now e) (btn_start v)
            in if dur > 10000 then (Some PortalHold, v, d)
               else if dur > 5000
               then (Some CalibrationHold, v\<lparr>last_btn_state := curr_btn e\<rparr>,
                     calibrate_sensor (cal e) d)
               else if dur > 20
               then (Some Click,
                     v\<lparr>click_count := click_count v + 1, last_click := now e,
                       last_btn_state := curr_btn e\<rparr>, d)
               else (None, v\<lparr>last_btn_state := curr_btn e\<rparr>, d)))
      else (None, v, d))"

text \<open>Lines 223-230.\<close>

definition click_aggregation ::
  "tick_env \<Rightarrow> loop_vars \<Rightarrow> device \<Rightarrow> event option \<times> loop_vars \<times> device" where
  "click_aggregation e v d =
     (if click_count v > 0 \<and> ticks_diff (now e) (last_click v) > 250
      then
        (if click_count v \<ge> 2
         then
           (let d1 = d\<lparr>auto_cycle := \<not> auto_cycle d\<rparr>;
                d2 = snd (save_config (tap_io e) None None None None
                            (Some (auto_cycle d1)) None d1)
            in (Some DoubleTap, v\<lparr>click_count := 0\<rparr>,
                d2\<lparr>msg_text := (if auto_cycle d2 then ''AUTO ON'' else ''AUTO OFF''),
                   msg_timer := now e + 1000\<rparr>))
         else
           (Some ShortTap, v\<lparr>click_count := 0\<rparr>,
            d\<lparr>auto_cycle := False, mode := (mode d + 1) mod length VIEWS,
              last_mode_change := now e\<rparr>))
      else (None, v, d))"

text \<open>Lines 233-237. \<open>pop(0)\<close> raises IndexError on an empty list (None).\<close>

definition read_sensor :: "tick_env \<Rightarrow> device \<Rightarrow> device option" where
  "read_sensor e d =
     (let v = (real (adc e) / 65535) * 3.3;
          cur = max 0 ((v - dust_offset d) * 170)
      in if dust_history d = [] then None
         else
           (let h = tl (dust_history d) @ [cur]
            in Some (d\<lparr>dust_history := h,
                       dust_val := sum_list (drop (length h - 15) h) / 15\<rparr>)))"

text \<open>Lines 241-250.\<close>

definition emit_telemetry :: "tick_env \<Rightarrow> device \<Rightarrow> device" where
  "emit_telemetry e d =
     (if ticks_diff (now e) (case last_serial d of None \<Rightarrow> 0 | Some t \<Rightarrow> t) \<ge> 1000
      then
        d\<lparr>serial_out := serial_out d @
             [\<lparr>tm_ts = clock e, tm_dust = py_round (dust_val d) 2,
               tm_cat = fst (get_aqi_category (dust_val d)),
               tm_cal = py_round (dust_offset d) 4, tm_temp = weather_temp d,
               tm_weather = weather_desc d, tm_rssi = rssi e, tm_auto = auto_cycle d\<rparr>],
           last_serial := Some (now e)\<rparr>
      else d)"

text \<open>Lines 252-256. \<open>VIEWS[state["mode"]]\<close> raises IndexError out of range (None).\<close>

definition auto_cycle_step :: "tick_env \<Rightarrow> device \<Rightarrow> device option" where
  "auto_cycle_step e d =
     (if auto_cycle d \<and> ticks_diff (now e) (last_mode_change d) > 10000
      then
        (if mode d < length VIEWS
         then
           (let cur_v = VIEWS ! mode d;
                idx = (if cur_v \<in> set AUTO_VIEWS
                       then (index_of AUTO_VIEWS cur_v + 1) mod length AUTO_VIEWS else 0)
            in Some (d\<lparr>mode := index_of VIEWS (AUTO_VIEWS ! idx),
                       last_mode_change := now e\<rparr>))
         else None)
      else Some d)"

text \<open>
  Lines 258-266, for what they do to the device: only the dashboard view writes (it
  calls \<open>update_hardware\<close>, line 174), and selecting the view raises IndexError when the
  mode is out of range.
\<close>

definition render :: "tick_env \<Rightarrow> loop_vars \<Rightarrow> device \<Rightarrow> device option" where
  "render e v d =
     (if now e < msg_timer d then Some d
      else if curr_btn e \<and> ticks_diff (now e) (btn_start v) > 10000 then Some d
      else if curr_btn e \<and> ticks_diff (now e) (btn_start v) > 5000 then Some d
      else if mode d < length VIEWS
      then (if VIEWS ! mode d = view_dashboard
            then Some (snd (update_hardware (dust_val d) d)) else Some d)
      else None)"

text \<open>One pass through \<open>while True\<close> (lines 212-267), with the events it produced.\<close>

datatype tick_result =
    Ticked "event list" loop_vars device
  | InPortal loop_vars device
  | Crashed py_error

definition events_of :: "event option \<Rightarrow> event option \<Rightarrow> event list" where
  "events_of a b = (case a of None \<Rightarrow> [] | Some x \<Rightarrow> [x]) @ (case b of None \<Rightarrow> [] | Some y \<Rightarrow> [y])"

definition tick :: "tick_env \<Rightarrow> loop_vars \<Rightarrow> device \<Rightarrow> tick_result" where
  "tick e v d =
     (case button_edge e v d of
        (g1, v1, d1) \<Rightarrow>
          if g1 = Some PortalHold then InPortal v1 d1
          else
            (case click_aggregation e v1 d1 of
               (g2, v2, d2) \<Rightarrow>
                 (case read_sensor e d2 of
                    None \<Rightarrow> Crashed IndexError
                  | Some d3 \<Rightarrow>
                      (let d4 = sync_data (net e) d3;
                           d5 = snd (update_hardware (dust_val d4) d4);
                           d6 = emit_telemetry e d5
                       in case auto_cycle_step e d6 of
                            None \<Rightarrow> Crashed IndexError
                          | Some d7 \<Rightarrow>
                              (case render e v2 d7 of
                                 None \<Rightarrow> Crashed IndexError
                               | Some d8 \<Rightarrow> Ticked (events_of g1 g2) v2 d8)))))"

text \<open>The loop over a sequence of passes: the events of each pass with its time, up to
  the pass that leaves the loop.\<close>

fun run :: "tick_env list \<Rightarrow> loop_vars \<Rightarrow> device \<Rightarrow> (int \<times> event list) list" where
  "run [] v d = []"
| "run (e # es) v d =
     (case tick e v d of
        Ticked evs v' d' \<Rightarrow> (now e, evs) # run es v' d'
      | InPortal v' d' \<Rightarrow> [(now e, [PortalHold])]
      | Crashed err \<Rightarrow> [])"

definition initial_vars :: loop_vars where
  "initial_vars = \<lparr>last_btn_state = False, btn_start = 0, click_count = 0, last_click = 0\<rparr>"

subsection \<open>Observations on a run\<close>

text \<open>The taps that a run acted on, in order, and the times of the passes that counted
  a click.\<close>

definition taps :: "(int \<times> event list) list \<Rightarrow> event list" where
  "taps tr = filter (\<lambda>x. x = ShortTap \<or> x = DoubleTap) (concat (map snd tr))"

definition click_times :: "(int \<times> event list) list \<Rightarrow> int list" where
  "click_times tr = map fst (filter (\<lambda>p. Click \<in> set (snd p)) tr)"

text \<open>The shape that every reachable device has: a window of 60 entries, a mode that
  selects a view, six pins.\<close>

definition well_formed :: "device \<Rightarrow> bool" where
  "well_formed d = (length (dust_history d) = 60 \<and> mode d < length VIEWS
                    \<and> length (control_pins d) = 6)"

subsection \<open>Sample inputs\<close>

text \<open>A pass through the loop with the link down, the converter at full scale, every
  file write succeeding and \<open>float\<close> as the language defines it.\<close>

definition example_io :: io_t where
  "example_io = \<lparr>io_clock = \<lparr>lt_year = 2026, lt_month = 1, lt_mday = 2, lt_hour = 3,
                                lt_minute = 4, lt_second = 5\<rparr>,
                  io_log_ok = True, io_cfg_ok = True, io_float = py_float_str\<rparr>"

definition example_env :: "int \<Rightarrow> bool \<Rightarrow> tick_env" where
  "example_env t b =
     \<lparr>now = t, curr_btn = b, adc = 65535,
      net = \<lparr>sync_now = t, connected = False, ntp_ok = False, weather = RequestFailed\<rparr>,
      clock = io_clock example_io, rssi = None,
      cal = \<lparr>cal_adc = (\<lambda>i. 13107), cal_io = example_io, cal_done = t\<rparr>,
      tap_io = example_io\<rparr>"

text \<open>The loop variables while the button is held, pressed at tick \<open>t\<close>.\<close>

definition held_vars :: "int \<Rightarrow> loop_vars" where
  "held_vars t = \<lparr>last_btn_state = True, btn_start = t, click_count = 0, last_click = 0\<rparr>"

text \<open>Four passes while the button, held since tick 0, is released, pressed and
  released again, and then left alone.\<close>

definition double_tap_passes :: "tick_env list" where
  "double_tap_passes = [example_env 100 False, example_env 200 True,
                        example_env 300 False, example_env 600 False]"

text \<open>A config file written while auto-cycle was on, and the loop variables with one
  click pending since tick 100.\<close>

definition auto_on_file :: file_content where
  "auto_on_file = dump_config \<lparr>cfg_ssid = ''net'', cfg_pass = ''pw'', cfg_lat = ''51.7520'',
                      cfg_lon = ''-1.2577'', cfg_auto = True, cfg_offset = 0.6\<rparr>"

definition one_click_vars :: loop_vars where
  "one_click_vars = \<lparr>last_btn_state = False, btn_start = 0, click_count = 1, last_click = 100\<rparr>"

text \<open>Two answers of the weather service with the link up: one that carries a
  temperature and no weather code, and a complete one.\<close>

definition partial_reply_net :: net_env where
  "partial_reply_net =
     \<lparr>sync_now = 1000, connected = True, ntp_ok = False,
      weather = Body (Some \<lparr>temperature = Some 21.7, weathercode = None\<rparr>)\<rparr>"

definition good_reply_net :: net_env where
  "good_reply_net =
     \<lparr>sync_now = 1000, connected = True, ntp_ok = True,
      weather = Body (Some \<lparr>temperature = Some (- 3.5), weathercode = Some 61\<rparr>)\<rparr>"

text \<open>Two request lines for the portal: one whose offset is percent-encoded, one as a
  browser sends it for plain values.\<close>

definition encoded_offset_request :: string where
  "encoded_offset_request = ''GET /?s=my+net&p=pw%21&la=51.5&lo=-0.1&os=0%2E6 HTTP/1.1''"

definition plain_request :: string where
  "plain_request = ''GET /?s=my+net&p=pw%21&la=51.5&lo=-0.1&os=0.55 HTTP/1.1''"

section \<open>Properties\<close>

subsection \<open>The classifier\<close>

text \<open>
  C3. For every concentration \<open>c\<close> the classifier returns one of the six categories with
  its level index, and each of them exactly on its range between the fixed ascending
  breakpoints 12.0, 35.4, 55.4, 150.4 and 250.4: the ranges are disjoint and cover every
  value. The level is at most 5, and 40.0 is classified as UNHEALTHY-S, level 2. The
  function reads and writes no state. (The fifth label is spelled "V. UNHEALTHY" in the
  code.)
\<close>

theorem get_aqi_category_breakpoints:
  "get_aqi_category c \<in> {(''GOOD'', 0), (''MODERATE'', 1), (''UNHEALTHY-S'', 2),
      (''UNHEALTHY'', 3), (''V. UNHEALTHY'', 4), (''HAZARDOUS'', 5)}
   \<and> (get_aqi_category c = (''GOOD'', 0)) = (c \<le> 12.0)
   \<and> (get_aqi_category c = (''MODERATE'', 1)) = (12.0 < c \<and> c \<le> 35.4)
   \<and> (get_aqi_category c = (''UNHEALTHY-S'', 2)) = (35.4 < c \<and> c \<le> 55.4)
   \<and> (get_aqi_category c = (''UNHEALTHY'', 3)) = (55.4 < c \<and> c \<le> 150.4)
   \<and> (get_aqi_category c = (''V. UNHEALTHY'', 4)) = (150.4 < c \<and> c \<le> 250.4)
   \<and> (get_aqi_category c = (''HAZARDOUS'', 5)) = (250.4 < c)
   \<and> snd (get_aqi_category c) \<le> 5
   \<and> get_aqi_category 40.0 = (''UNHEALTHY-S'', 2)"
  by (auto simp add: get_aqi_category_def)

theorem get_aqi_category_breakpoints_witness:
  "get_aqi_category 200 = (''V. UNHEALTHY'', 4) \<and> get_aqi_category 12 = (''GOOD'', 0)
   \<and> get_aqi_category 12.01 = (''MODERATE'', 1) \<and> get_aqi_category 1000 = (''HAZARDOUS'', 5)"
  using get_aqi_category_breakpoints [of 200] get_aqi_category_breakpoints [of 12]
    get_aqi_category_breakpoints [of "12.01"] get_aqi_category_breakpoints [of 1000]
  by simp

subsection \<open>The output pins\<close>

lemma update_hardware_eq:
  "update_hardware c d = (fst (get_aqi_category c),
      d\<lparr>control_pins := map (\<lambda>i. if i = snd (get_aqi_category c) then 1 else 0)
            [0..<length (control_pins d)]\<rparr>)"
proof -
  have "map (\<lambda>(i, pin). if i = l then 1 else 0) (enumerate 0 xs)
        = map (\<lambda>i. if i = l then (1::nat) else 0) [0..<length xs]" for l and xs :: "nat list"
    by (rule nth_equalityI) (simp_all add: nth_enumerate_eq)
  then show ?thesis
    unfolding update_hardware_def Let_def case_prod_beta by simp
qed

lemma level_le_5: "snd (get_aqi_category c) \<le> 5"
  by (simp add: get_aqi_category_def)

lemma upt_6: "[0..<6] = [0, 1, 2, 3, 4, Suc 4]"
  by (simp add: upt_rec numeral_eq_Suc)

lemma one_hot_cases:
  "l \<le> 5 \<Longrightarrow> l = 0 \<or> l = 1 \<or> l = 2 \<or> l = 3 \<or> l = 4 \<or> l = (5::nat)"
  by arith

lemma one_hot_6:
  assumes "l \<le> 5"
  shows "map (\<lambda>i. if i = l then 1 else 0) [0..<6] = (replicate 6 (0::nat))[l := 1]"
    and "length (filter (\<lambda>v. v = 1) (map (\<lambda>i. if i = l then 1 else 0::nat) [0..<6])) = 1"
    and "length (filter (\<lambda>v. v = 0) (map (\<lambda>i. if i = l then 1 else 0::nat) [0..<6])) = 5"
  using one_hot_cases [OF assms] by (auto simp add: upt_6 numeral_eq_Suc)

text \<open>
  C6. On a device with its six pins, after \<open>update_hardware\<close> has run on \<open>c\<close> the pin
  whose index is the classifier's level for \<open>c\<close> is 1 and the other five are 0: exactly one
  pin is active. Nothing else of the device changes and the category string is
  returned. A second call with the same value, or with any value of the same level,
  leaves the device as it is. For 40.0 the pins are 0, 0, 1, 0, 0, 0.
\<close>

theorem update_hardware_one_hot:
  assumes "length (control_pins d) = 6"
  shows "control_pins (snd (update_hardware c d)) = (replicate 6 0)[snd (get_aqi_category c) := 1]
    \<and> (\<forall>i < 6. (control_pins (snd (update_hardware c d)) ! i = 1) = (i = snd (get_aqi_category c)))
    \<and> (\<forall>i < 6. (control_pins (snd (update_hardware c d)) ! i = 0) = (i \<noteq> snd (get_aqi_category c)))
    \<and> length (filter (\<lambda>v. v = 1) (control_pins (snd (update_hardware c d)))) = 1
    \<and> length (filter (\<lambda>v. v = 0) (control_pins (snd (update_hardware c d)))) = 5
    \<and> fst (update_hardware c d) = fst (get_aqi_category c)
    \<and> snd (update_hardware c d) = d\<lparr>control_pins := control_pins (snd (update_hardware c d))\<rparr>
    \<and> snd (update_hardware c (snd (update_hardware c d))) = snd (update_hardware c d)
    \<and> (\<forall>c'. snd (get_aqi_category c') = snd (get_aqi_category c) \<longrightarrow>
          snd (update_hardware c' (snd (update_hardware c d))) = snd (update_hardware c d))
    \<and> control_pins (snd (update_hardware 40.0 d)) = [0, 0, 1, 0, 0, 0]"
proof -
  let ?l = "snd (get_aqi_category c)"
  have l: "?l \<le> 5" by (rule level_le_5)
  have pins: "control_pins (snd (update_hardware c' d)) =
       map (\<lambda>i. if i = snd (get_aqi_category c') then 1 else 0) [0..<6]" for c'
    by (simp add: update_hardware_eq assms)
  have 1: "control_pins (snd (update_hardware c d)) = (replicate 6 0)[?l := 1]"
    by (simp only: pins one_hot_6(1) [OF l])
  have 2: "\<forall>i < 6. (control_pins (snd (update_hardware c d)) ! i = 1) = (i = ?l)"
    by (simp add: pins)
  have 3: "\<forall>i < 6. (control_pins (snd (update_hardware c d)) ! i = 0) = (i \<noteq> ?l)"
    by (simp add: pins)
  have 4: "length (filter (\<lambda>v. v = 1) (control_pins (snd (update_hardware c d)))) = 1"
    by (simp only: pins one_hot_6(2) [OF l])
  have 5: "length (filter (\<lambda>v. v = 0) (control_pins (snd (update_hardware c d)))) = 5"
    by (simp only: pins one_hot_6(3) [OF l])
  have 6: "fst (update_hardware c d) = fst (get_aqi_category c)"
    by (simp add: update_hardware_eq)
  have 7: "snd (update_hardware c d) = d\<lparr>control_pins := control_pins (snd (update_hardware c d))\<rparr>"
    by (simp add: update_hardware_eq)
  have 9: "snd (update_hardware c' (snd (update_hardware c d))) = snd (update_hardware c d)"
    if "snd (get_aqi_category c') = ?l" for c'
    using that by (simp add: update_hardware_eq)
  have 8: "snd (update_hardware c (snd (update_hardware c d))) = snd (update_hardware c d)"
    by (rule 9) simp
  have 10: "control_pins (snd (update_hardware 40.0 d)) = [0, 0, 1, 0, 0, 0]"
    by (simp add: pins get_aqi_category_def upt_6)
  from 1 2 3 4 5 6 7 8 9 10 show ?thesis by blast
qed

theorem update_hardware_one_hot_witness:
  "length (control_pins (initial_device 0 None None)) = 6
   \<and> control_pins (snd (update_hardware 200 (initial_device 0 None None))) = [0, 0, 0, 0, 1, 0]
   \<and> fst (update_hardware 200 (initial_device 0 None None)) = ''V. UNHEALTHY''"
proof -
  have len: "length (control_pins (initial_device 0 None None)) = 6"
    by (simp add: initial_device_def)
  have lvl: "get_aqi_category 200 = (''V. UNHEALTHY'', 4)"
    by (simp add: get_aqi_category_def)
  have "(replicate 6 (0::nat))[4 := 1] = [0, 0, 0, 0, 1, 0]"
    by (simp add: numeral_eq_Suc)
  with update_hardware_one_hot [OF len, of 200] len lvl show ?thesis
    by simp
qed

subsection \<open>Percent decoding\<close>

lemma hex_val_bound: "hex_val a = Some x \<Longrightarrow> x \<le> 15"
  by (auto simp add: hex_val_def Let_def split: if_splits)

lemma hex_val_not_space: "hex_val a = Some x \<Longrightarrow> \<not> is_space a"
  by (auto simp add: hex_val_def is_space_def Let_def split: if_splits)

lemma hex_val_not_sign: "hex_val a = Some x \<Longrightarrow> a \<noteq> CHR ''-'' \<and> a \<noteq> CHR ''+'' \<and> a \<noteq> CHR ''x'' \<and> a \<noteq> CHR ''X''"
  by (auto simp add: hex_val_def Let_def split: if_splits)

lemma strip_hex_pair:
  assumes "hex_val a = Some x" "hex_val b = Some y"
  shows "strip [a, b] = [a, b]"
  using hex_val_not_space [OF assms(1)] hex_val_not_space [OF assms(2)]
  by (simp add: strip_def)

lemma py_int16_hex_pair:
  assumes "hex_val a = Some x" "hex_val b = Some y"
  shows "py_int16 [a, b] = Some (int (16 * x + y))"
  using hex_val_not_sign [OF assms(1)] hex_val_not_sign [OF assms(2)] assms
  by (simp add: py_int16_def strip_hex_pair [OF assms] hex_digits_val_def)

lemma py_chr_hex_pair:
  assumes "hex_val a = Some x" "hex_val b = Some y"
  shows "py_chr (int (16 * x + y)) = Some (char_of (16 * x + y))"
  using hex_val_bound [OF assms(1)] hex_val_bound [OF assms(2)]
  by (simp add: py_chr_def)

lemma url_decode_loop_no_percent:
  "CHR ''%'' \<notin> set s \<Longrightarrow> url_decode_loop s = Inr s"
  by (induction s) auto

text \<open>
  C9, as amended. \<open>url_decode\<close> turns every \<open>+\<close> into a space and copies every other
  character but \<open>%\<close>. A \<open>%\<close> that is followed by two hexadecimal digits is decoded to
  the character with that code wherever the escape stands, also when its second digit
  is the last character of the string: the test \<open>i+2 < len(s)\<close> holds there. Only a
  \<open>%\<close> with fewer than two characters after it is copied through. A string without
  \<open>%\<close> is returned with its \<open>+\<close> replaced and nothing else changed.
\<close>

theorem url_decode_escapes:
  "url_decode [] = Inr []
   \<and> (c \<noteq> CHR ''%'' \<longrightarrow> url_decode (c # cs) =
        (case url_decode cs of Inl e \<Rightarrow> Inl e
         | Inr res \<Rightarrow> Inr ((if c = CHR ''+'' then CHR '' '' else c) # res)))
   \<and> (hex_val a = Some x \<and> hex_val b = Some y \<longrightarrow>
        url_decode (CHR ''%'' # a # b # rest) =
        (case url_decode rest of Inl e \<Rightarrow> Inl e | Inr res \<Rightarrow> Inr (char_of (16 * x + y) # res)))
   \<and> (length ts < 2 \<longrightarrow> url_decode (CHR ''%'' # ts) =
        Inr (CHR ''%'' # map (\<lambda>c. if c = CHR ''+'' then CHR '' '' else c) ts))
   \<and> (CHR ''%'' \<notin> set s \<longrightarrow>
        url_decode s = Inr (map (\<lambda>c. if c = CHR ''+'' then CHR '' '' else c) s))"
proof -
  let ?f = "\<lambda>c. if c = CHR ''+'' then CHR '' '' else c"
  have 1: "url_decode [] = Inr []"
    by (simp add: url_decode_def)
  have 2: "url_decode (c # cs) =
        (case url_decode cs of Inl e \<Rightarrow> Inl e | Inr res \<Rightarrow> Inr (?f c # res))"
    if "c \<noteq> CHR ''%''"
    using that by (simp add: url_decode_def)
  have 3: "url_decode (CHR ''%'' # a # b # rest) =
        (case url_decode rest of Inl e \<Rightarrow> Inl e | Inr res \<Rightarrow> Inr (char_of (16 * x + y) # res))"
    if h: "hex_val a = Some x" "hex_val b = Some y"
  proof -
    have ab: "?f a = a" "?f b = b"
      using hex_val_not_sign [OF h(1)] hex_val_not_sign [OF h(2)] by simp_all
    have "url_decode (CHR ''%'' # a # b # rest) =
          url_decode_loop (CHR ''%'' # a # b # map ?f rest)"
      by (simp add: url_decode_def ab)
    also have "\<dots> = (case url_decode_loop (map ?f rest) of
          Inl e \<Rightarrow> Inl e | Inr res \<Rightarrow> Inr (char_of (16 * x + y) # res))"
      by (simp del: of_nat_add of_nat_mult
          add: py_int16_hex_pair [OF h] py_chr_hex_pair [OF h])
    finally show ?thesis by (simp add: url_decode_def)
  qed
  have 5: "url_decode s = Inr (map ?f s)" if "CHR ''%'' \<notin> set s" for s
  proof -
    from that have "CHR ''%'' \<notin> set (map ?f s)" by auto
    then show ?thesis
      unfolding url_decode_def by (rule url_decode_loop_no_percent)
  qed
  have 4: "url_decode (CHR ''%'' # ts) = Inr (CHR ''%'' # map ?f ts)" if "length ts < 2"
  proof (cases ts)
    case Nil
    then show ?thesis by (simp add: url_decode_def)
  next
    case (Cons t ts')
    with that have "ts = [t]" by simp
    then show ?thesis by (simp add: url_decode_def)
  qed
  from 1 2 3 4 5 show ?thesis by blast
qed

theorem url_decode_escapes_witness:
  "url_decode ''a+%E9'' = Inr [CHR ''a'', CHR '' '', CHR 0xE9]
   \<and> url_decode ''%4'' = Inr ''%4'' \<and> url_decode ''1+1'' = Inr ''1 1''"
proof -
  have e: "hex_val CHR ''E'' = Some 14" "hex_val CHR ''9'' = Some 9"
    by (simp_all add: hex_val_def)
  have n: "CHR ''%'' \<notin> set ''1+1''" by simp
  have "url_decode ''%E9'' = Inr [char_of (16 * 14 + 9 :: nat)]"
    using url_decode_escapes [of _ _ "CHR ''E''" 14 "CHR ''9''" 9 "[]"] e by simp
  moreover have "char_of (16 * 14 + 9 :: nat) = CHR 0xE9" by code_simp
  ultimately have 1: "url_decode ''%E9'' = Inr [CHR 0xE9]" by simp
  have 2: "url_decode ''+%E9'' = Inr [CHR '' '', CHR 0xE9]"
    using url_decode_escapes [of "CHR ''+''" "''%E9''"] 1 by simp
  have 3: "url_decode ''a+%E9'' = Inr [CHR ''a'', CHR '' '', CHR 0xE9]"
    using url_decode_escapes [of "CHR ''a''" "''+%E9''"] 2 by simp
  have 4: "url_decode ''%4'' = Inr ''%4''"
    using url_decode_escapes [of _ _ _ _ _ _ _ "''4''"] by simp
  have 5: "url_decode ''1+1'' = Inr ''1 1''"
    using url_decode_escapes [of _ _ _ _ _ _ _ _ "''1+1''"] n by simp
  from 3 4 5 show ?thesis by simp
qed

text \<open>
  C9 as stated fails: an escape whose digits end at the last character is decoded, not
  copied through. \<open>url_decode("%41")\<close> is \<open>"A"\<close>.
\<close>

theorem url_decode_trailing_escape_counterexample:
  "url_decode ''%41'' = Inr ''A'' \<and> url_decode ''%41'' \<noteq> Inr ''%41''
   \<and> url_decode ''x=%41'' = Inr ''x=A''"
  by code_simp

subsection \<open>What each operation leaves alone\<close>

lemma save_config_frame:
  "dust_history (snd (save_config io a b c1 c2 c3 c4 d)) = dust_history d"
  "dust_val (snd (save_config io a b c1 c2 c3 c4 d)) = dust_val d"
  "dust_offset (snd (save_config io a b c1 c2 c3 c4 d)) = dust_offset d"
  "mode (snd (save_config io a b c1 c2 c3 c4 d)) = mode d"
  "auto_cycle (snd (save_config io a b c1 c2 c3 c4 d)) = auto_cycle d"
  "control_pins (snd (save_config io a b c1 c2 c3 c4 d)) = control_pins d"
  "serial_out (snd (save_config io a b c1 c2 c3 c4 d)) = serial_out d"
  "last_serial (snd (save_config io a b c1 c2 c3 c4 d)) = last_serial d"
  "last_ntp_update (snd (save_config io a b c1 c2 c3 c4 d)) = last_ntp_update d"
  "last_weather_update (snd (save_config io a b c1 c2 c3 c4 d)) = last_weather_update d"
  "weather_temp (snd (save_config io a b c1 c2 c3 c4 d)) = weather_temp d"
  "weather_desc (snd (save_config io a b c1 c2 c3 c4 d)) = weather_desc d"
  "last_mode_change (snd (save_config io a b c1 c2 c3 c4 d)) = last_mode_change d"
  "msg_text (snd (save_config io a b c1 c2 c3 c4 d)) = msg_text d"
  "msg_timer (snd (save_config io a b c1 c2 c3 c4 d)) = msg_timer d"
  by (simp_all add: save_config_def write_config_def log_calibration_def Let_def
      split: option.splits float_result.splits)

lemma calibrate_sensor_frame:
  "dust_history (calibrate_sensor ce d) = dust_history d"
  "dust_val (calibrate_sensor ce d) = dust_val d"
  "mode (calibrate_sensor ce d) = mode d"
  "auto_cycle (calibrate_sensor ce d) = auto_cycle d"
  "serial_out (calibrate_sensor ce d) = serial_out d"
  "last_serial (calibrate_sensor ce d) = last_serial d"
  "last_ntp_update (calibrate_sensor ce d) = last_ntp_update d"
  "last_weather_update (calibrate_sensor ce d) = last_weather_update d"
  "weather_temp (calibrate_sensor ce d) = weather_temp d"
  "weather_desc (calibrate_sensor ce d) = weather_desc d"
  "last_mode_change (calibrate_sensor ce d) = last_mode_change d"
  by (simp_all add: calibrate_sensor_def Let_def save_config_frame)

lemma button_edge_frame:
  "dust_history (snd (snd (button_edge e v d))) = dust_history d"
  "dust_val (snd (snd (button_edge e v d))) = dust_val d"
  "serial_out (snd (snd (button_edge e v d))) = serial_out d"
  "last_serial (snd (snd (button_edge e v d))) = last_serial d"
  "last_ntp_update (snd (snd (button_edge e v d))) = last_ntp_update d"
  "last_weather_update (snd (snd (button_edge e v d))) = last_weather_update d"
  "weather_temp (snd (snd (button_edge e v d))) = weather_temp d"
  "weather_desc (snd (snd (button_edge e v d))) = weather_desc d"
  by (simp_all add: button_edge_def Let_def calibrate_sensor_frame)

lemma click_aggregation_frame:
  "dust_history (snd (snd (click_aggregation e v d))) = dust_history d"
  "dust_val (snd (snd (click_aggregation e v d))) = dust_val d"
  "dust_offset (snd (snd (click_aggregation e v d))) = dust_offset d"
  "serial_out (snd (snd (click_aggregation e v d))) = serial_out d"
  "last_serial (snd (snd (click_aggregation e v d))) = last_serial d"
  "last_ntp_update (snd (snd (click_aggregation e v d))) = last_ntp_update d"
  "last_weather_update (snd (snd (click_aggregation e v d))) = last_weather_update d"
  "weather_temp (snd (snd (click_aggregation e v d))) = weather_temp d"
  "weather_desc (snd (snd (click_aggregation e v d))) = weather_desc d"
  by (simp_all add: click_aggregation_def Let_def save_config_frame)

lemma sync_data_frame:
  "dust_history (sync_data ne d) = dust_history d"
  "dust_val (sync_data ne d) = dust_val d"
  "dust_offset (sync_data ne d) = dust_offset d"
  "serial_out (sync_data ne d) = serial_out d"
  "last_serial (sync_data ne d) = last_serial d"
  "auto_cycle (sync_data ne d) = auto_cycle d"
  "config (sync_data ne d) = config d"
  "config_file (sync_data ne d) = config_file d"
  by (simp_all add: sync_data_def fetch_weather_def Let_def
      split: weather_reply.splits option.splits)

lemma update_hardware_frame:
  "dust_history (snd (update_hardware c d)) = dust_history d"
  "dust_val (snd (update_hardware c d)) = dust_val d"
  "dust_offset (snd (update_hardware c d)) = dust_offset d"
  "serial_out (snd (update_hardware c d)) = serial_out d"
  "last_serial (snd (update_hardware c d)) = last_serial d"
  "auto_cycle (snd (update_hardware c d)) = auto_cycle d"
  "mode (snd (update_hardware c d)) = mode d"
  "weather_temp (snd (update_hardware c d)) = weather_temp d"
  "weather_desc (snd (update_hardware c d)) = weather_desc d"
  "last_ntp_update (snd (update_hardware c d)) = last_ntp_update d"
  "last_weather_update (snd (update_hardware c d)) = last_weather_update d"
  "last_mode_change (snd (update_hardware c d)) = last_mode_change d"
  "config (snd (update_hardware c d)) = config d"
  "config_file (snd (update_hardware c d)) = config_file d"
  by (simp_all add: update_hardware_eq)

lemma emit_telemetry_frame:
  "dust_history (emit_telemetry e d) = dust_history d"
  "dust_val (emit_telemetry e d) = dust_val d"
  "last_ntp_update (emit_telemetry e d) = last_ntp_update d"
  "last_weather_update (emit_telemetry e d) = last_weather_update d"
  "weather_temp (emit_telemetry e d) = weather_temp d"
  "weather_desc (emit_telemetry e d) = weather_desc d"
  by (simp_all add: emit_telemetry_def)

lemma auto_cycle_step_frame:
  assumes "auto_cycle_step e d = Some d'"
  shows "dust_history d' = dust_history d" "dust_val d' = dust_val d"
    "serial_out d' = serial_out d" "last_serial d' = last_serial d"
    "last_ntp_update d' = last_ntp_update d" "last_weather_update d' = last_weather_update d"
    "weather_temp d' = weather_temp d" "weather_desc d' = weather_desc d"
  using assms by (auto simp add: auto_cycle_step_def Let_def split: if_splits)

lemma render_frame:
  assumes "render e v d = Some d'"
  shows "dust_history d' = dust_history d" "dust_val d' = dust_val d"
    "serial_out d' = serial_out d" "last_serial d' = last_serial d"
    "last_ntp_update d' = last_ntp_update d" "last_weather_update d' = last_weather_update d"
    "weather_temp d' = weather_temp d" "weather_desc d' = weather_desc d"
  using assms by (auto simp add: render_def update_hardware_frame split: if_splits)

subsection \<open>The rolling window\<close>

lemma read_sensor_eq:
  assumes "length (dust_history d) = 60"
  shows "read_sensor e d =
     Some (d\<lparr>dust_history := tl (dust_history d) @ [max 0 ((real (adc e) / 65535 * 3.3 - dust_offset d) * 170)],
             dust_val := sum_list (drop 45 (tl (dust_history d) @
                 [max 0 ((real (adc e) / 65535 * 3.3 - dust_offset d) * 170)])) / 15\<rparr>)"
proof -
  from assms have "dust_history d \<noteq> []" by auto
  then show ?thesis by (simp add: read_sensor_def Let_def assms)
qed

lemma tick_window:
  assumes len: "length (dust_history d) = 60" and t: "tick e v d = Ticked evs v' d'"
  shows "length (dust_history d') = 60 \<and> take 59 (dust_history d') = tl (dust_history d)
     \<and> dust_val d' = sum_list (drop 45 (dust_history d')) / 15"
proof -
  obtain g1 v1 d1 where be: "button_edge e v d = (g1, v1, d1)" by (cases "button_edge e v d")
  obtain g2 v2 d2 where ca: "click_aggregation e v1 d1 = (g2, v2, d2)"
    by (cases "click_aggregation e v1 d1")
  have h1: "dust_history d1 = dust_history d"
    using button_edge_frame(1) [of e v d] be by simp
  have h2: "dust_history d2 = dust_history d"
    using click_aggregation_frame(1) [of e v1 d1] ca h1 by simp
  then have len2: "length (dust_history d2) = 60" using len by simp
  from t be ca obtain d3 where rs: "read_sensor e d2 = Some d3"
    by (auto simp add: tick_def split: if_splits option.splits)
  define d6 where "d6 = emit_telemetry e (snd (update_hardware (dust_val (sync_data (net e) d3))
      (sync_data (net e) d3)))"
  have d6h: "dust_history d6 = dust_history d3" and d6v: "dust_val d6 = dust_val d3"
    by (simp_all add: d6_def emit_telemetry_frame update_hardware_frame sync_data_frame)
  from t be ca rs obtain d7 where ac: "auto_cycle_step e d6 = Some d7"
      and rd: "render e v2 d7 = Some d'"
    by (auto simp add: tick_def Let_def d6_def split: if_splits option.splits)
  have d'h: "dust_history d' = dust_history d3" and d'v: "dust_val d' = dust_val d3"
    using auto_cycle_step_frame(1,2) [OF ac] render_frame(1,2) [OF rd] d6h d6v by simp_all
  from rs read_sensor_eq [OF len2, of e] have
    "dust_history d3 = tl (dust_history d2) @ [max 0 ((real (adc e) / 65535 * 3.3 - dust_offset d2) * 170)]"
    "dust_val d3 = sum_list (drop 45 (dust_history d3)) / 15"
    by auto
  with d'h d'v h2 len show ?thesis by simp
qed

text \<open>
  C7. On a device whose window holds 60 entries, reading the sensor drops the oldest
  entry, shifts the others by one place and appends the new reading (the voltage less
  the offset, scaled by 170 and clamped at 0) as the last: the length stays 60. The
  published \<open>dust_val\<close> is the sum of the last 15 entries of the new window divided by
  15, their arithmetic mean. The same holds for the device that a whole pass through
  the loop leaves behind.
\<close>

theorem rolling_window_mean:
  assumes "length (dust_history d) = 60"
  shows "(let cur = max 0 ((real (adc e) / 65535 * 3.3 - dust_offset d) * 170);
              h = tl (dust_history d) @ [cur]
          in read_sensor e d = Some (d\<lparr>dust_history := h, dust_val := sum_list (drop 45 h) / 15\<rparr>)
             \<and> length h = 60 \<and> h ! 59 = cur \<and> (\<forall>i < 59. h ! i = dust_history d ! Suc i)
             \<and> length (drop 45 h) = 15 \<and> drop 45 h = map (\<lambda>i. h ! i) [45..<60])
     \<and> (\<forall>v evs v' d'. tick e v d = Ticked evs v' d' \<longrightarrow>
          length (dust_history d') = 60 \<and> take 59 (dust_history d') = tl (dust_history d)
          \<and> dust_val d' = sum_list (drop 45 (dust_history d')) / real (length (drop 45 (dust_history d'))))"
proof -
  define cur where "cur = max 0 ((real (adc e) / 65535 * 3.3 - dust_offset d) * 170)"
  define h where "h = tl (dust_history d) @ [cur]"
  have lh: "length h = 60" by (simp add: h_def assms)
  have 1: "read_sensor e d = Some (d\<lparr>dust_history := h, dust_val := sum_list (drop 45 h) / 15\<rparr>)"
    using read_sensor_eq [OF assms, of e] by (simp add: h_def cur_def)
  have 2: "h ! 59 = cur" by (simp add: h_def nth_append assms)
  have 3: "\<forall>i < 59. h ! i = dust_history d ! Suc i"
    by (simp add: h_def nth_append assms nth_tl)
  have 4: "length (drop 45 h) = 15" by (simp add: lh)
  have 5: "drop 45 h = map (\<lambda>i. h ! i) [45..<60]"
    by (rule nth_equalityI) (simp_all add: lh del: upt_rec_numeral)
  have 6: "length (dust_history d') = 60 \<and> take 59 (dust_history d') = tl (dust_history d)
          \<and> dust_val d' = sum_list (drop 45 (dust_history d')) / real (length (drop 45 (dust_history d')))"
    if "tick e v d = Ticked evs v' d'" for v evs v' d'
    using tick_window [OF assms that] by simp
  from 1 lh 2 3 4 5 6 show ?thesis
    unfolding Let_def cur_def [symmetric] h_def [symmetric] by blast
qed

theorem rolling_window_mean_witness:
  "length (dust_history (initial_device 0 None None)) = 60
   \<and> read_sensor (example_env 50 False) (initial_device 0 None None) =
       Some ((initial_device 0 None None)\<lparr>dust_history := replicate 59 0 @ [459],
                                          dust_val := 30.6\<rparr>)"
proof -
  have len: "length (dust_history (initial_device 0 None None)) = 60"
    by (simp add: initial_device_def)
  have h: "tl (dust_history (initial_device 0 None None)) = replicate 59 0"
    by (simp add: initial_device_def numeral_eq_Suc)
  have c: "max 0 ((real (adc (example_env 50 False)) / 65535 * 3.3
             - dust_offset (initial_device 0 None None)) * 170) = 459"
    by (simp add: example_env_def initial_device_def)
  have s: "sum_list (drop 45 (replicate 59 0 @ [459::real])) / 15 = 30.6"
    by (simp add: sum_list_replicate)
  from rolling_window_mean [OF len, of "example_env 50 False"] show ?thesis
    unfolding Let_def h c s using len by blast
qed

subsection \<open>Button edges\<close>

lemma button_edge_release:
  assumes "last_btn_state v" "\<not> curr_btn e"
  shows "button_edge e v d =
     (let dur = now e - btn_start v
      in if dur > 10000 then (Some PortalHold, v, d)
         else if dur > 5000
         then (Some CalibrationHold, v\<lparr>last_btn_state := False\<rparr>, calibrate_sensor (cal e) d)
         else if dur > 20
         then (Some Click, v\<lparr>click_count := click_count v + 1, last_click := now e,
                 last_btn_state := False\<rparr>, d)
         else (None, v\<lparr>last_btn_state := False\<rparr>, d))"
  using assms by (simp add: button_edge_def ticks_diff_def Let_def)

lemma button_edge_press:
  assumes "\<not> last_btn_state v" "curr_btn e"
  shows "button_edge e v d = (None, v\<lparr>btn_start := now e, last_btn_state := True\<rparr>, d)"
  using assms by (simp add: button_edge_def)

lemma button_edge_steady:
  assumes "curr_btn e = last_btn_state v"
  shows "button_edge e v d = (None, v, d)"
  using assms by (simp add: button_edge_def)

text \<open>
  C1, as amended. A release (the button was down at the last pass and is up now) is
  classified by the time since the press, with strict thresholds: more than 10000 ms
  enters the setup portal, which ends the pass; more than 5000 ms and at most 10000 ms
  runs the calibration; more than 20 ms and at most 5000 ms counts one click and stamps
  it with the current tick; 20 ms or less changes nothing but the stored button state.
  A press stores its tick, and a pass without an edge changes nothing. When the portal
  or the calibration is chosen, the click count is left as it was, and a click is
  counted in no other case.
\<close>

theorem release_classification:
  "(last_btn_state v \<and> \<not> curr_btn e \<and> 10000 < now e - btn_start v \<longrightarrow>
       button_edge e v d = (Some PortalHold, v, d) \<and> tick e v d = InPortal v d)
   \<and> (last_btn_state v \<and> \<not> curr_btn e \<and> 5000 < now e - btn_start v
        \<and> now e - btn_start v \<le> 10000 \<longrightarrow>
       button_edge e v d =
         (Some CalibrationHold, v\<lparr>last_btn_state := False\<rparr>, calibrate_sensor (cal e) d))
   \<and> (last_btn_state v \<and> \<not> curr_btn e \<and> 20 < now e - btn_start v
        \<and> now e - btn_start v \<le> 5000 \<longrightarrow>
       button_edge e v d =
         (Some Click, v\<lparr>click_count := click_count v + 1, last_click := now e,
                        last_btn_state := False\<rparr>, d))
   \<and> (last_btn_state v \<and> \<not> curr_btn e \<and> now e - btn_start v \<le> 20 \<longrightarrow>
       button_edge e v d = (None, v\<lparr>last_btn_state := False\<rparr>, d))
   \<and> (\<not> last_btn_state v \<and> curr_btn e \<longrightarrow>
       button_edge e v d = (None, v\<lparr>btn_start := now e, last_btn_state := True\<rparr>, d))
   \<and> (curr_btn e = last_btn_state v \<longrightarrow> button_edge e v d = (None, v, d))
   \<and> (fst (button_edge e v d) = Some PortalHold \<or> fst (button_edge e v d) = Some CalibrationHold
        \<longrightarrow> click_count (fst (snd (button_edge e v d))) = click_count v)
   \<and> (fst (button_edge e v d) = Some Click) =
        (last_btn_state v \<and> \<not> curr_btn e \<and> 20 < now e - btn_start v \<and> now e - btn_start v \<le> 5000)"
proof -
  have 1: "button_edge e v d = (Some PortalHold, v, d) \<and> tick e v d = InPortal v d"
    if "last_btn_state v" "\<not> curr_btn e" "10000 < now e - btn_start v"
    using that by (simp add: button_edge_release tick_def)
  have 2: "button_edge e v d =
         (Some CalibrationHold, v\<lparr>last_btn_state := False\<rparr>, calibrate_sensor (cal e) d)"
    if "last_btn_state v" "\<not> curr_btn e" "5000 < now e - btn_start v" "now e - btn_start v \<le> 10000"
    using that by (simp add: button_edge_release)
  have 3: "button_edge e v d =
         (Some Click, v\<lparr>click_count := click_count v + 1, last_click := now e,
                        last_btn_state := False\<rparr>, d)"
    if "last_btn_state v" "\<not> curr_btn e" "20 < now e - btn_start v" "now e - btn_start v \<le> 5000"
    using that by (simp add: button_edge_release)
  have 4: "button_edge e v d = (None, v\<lparr>last_btn_state := False\<rparr>, d)"
    if "last_btn_state v" "\<not> curr_btn e" "now e - btn_start v \<le> 20"
    using that by (simp add: button_edge_release)
  have 5: "button_edge e v d = (None, v\<lparr>btn_start := now e, last_btn_state := True\<rparr>, d)"
    if "\<not> last_btn_state v" "curr_btn e"
    using that by (rule button_edge_press)
  have 6: "button_edge e v d = (None, v, d)" if "curr_btn e = last_btn_state v"
    using that by (rule button_edge_steady)
  have 7: "click_count (fst (snd (button_edge e v d))) = click_count v"
    if "fst (button_edge e v d) = Some PortalHold \<or> fst (button_edge e v d) = Some CalibrationHold"
    using that by (auto simp add: button_edge_def Let_def split: if_splits)
  have 8: "(fst (button_edge e v d) = Some Click) =
        (last_btn_state v \<and> \<not> curr_btn e \<and> 20 < now e - btn_start v \<and> now e - btn_start v \<le> 5000)"
    by (auto simp add: button_edge_def ticks_diff_def Let_def split: if_splits)
  from 1 2 3 4 5 6 7 8 show ?thesis by blast
qed

theorem release_classification_witness:
  "fst (button_edge (example_env 10001 False) (held_vars 0) (initial_device 0 None None)) = Some PortalHold
   \<and> fst (button_edge (example_env 10000 False) (held_vars 0) (initial_device 0 None None)) = Some CalibrationHold
   \<and> fst (button_edge (example_env 5000 False) (held_vars 0) (initial_device 0 None None)) = Some Click
   \<and> fst (button_edge (example_env 20 False) (held_vars 0) (initial_device 0 None None)) = None"
  using release_classification [of "held_vars 0" "example_env 10001 False" "initial_device 0 None None"]
    release_classification [of "held_vars 0" "example_env 10000 False" "initial_device 0 None None"]
    release_classification [of "held_vars 0" "example_env 5000 False" "initial_device 0 None None"]
    release_classification [of "held_vars 0" "example_env 20 False" "initial_device 0 None None"]
  by (simp add: held_vars_def example_env_def)

text \<open>
  C1 as stated fails at the two boundaries: a button released exactly 10000 ms after
  the press starts the calibration, not the portal, and one released after exactly
  5000 ms counts as a click, not as a calibration hold.
\<close>

theorem release_thresholds_counterexample:
  "fst (button_edge (example_env 10000 False) (held_vars 0) (initial_device 0 None None)) \<noteq> Some PortalHold
   \<and> fst (button_edge (example_env 10000 False) (held_vars 0) (initial_device 0 None None)) = Some CalibrationHold
   \<and> fst (button_edge (example_env 5000 False) (held_vars 0) (initial_device 0 None None)) \<noteq> Some CalibrationHold
   \<and> fst (button_edge (example_env 5000 False) (held_vars 0) (initial_device 0 None None)) = Some Click"
  by (simp add: button_edge_def ticks_diff_def held_vars_def example_env_def Let_def)

subsection \<open>Calibration\<close>

lemma collect_samples_map:
  "collect_samples a n = map (\<lambda>i. (real (a i) / 65535) * 3.3) [0..<n]"
  by (induction n) simp_all

lemma collect_samples_length: "length (collect_samples a n) = n"
  by (simp add: collect_samples_map)

lemma collect_samples_const:
  assumes "\<forall>i < n. a i = k"
  shows "collect_samples a n = replicate n ((real k / 65535) * 3.3)"
  using assms by (simp add: collect_samples_map map_replicate_const [symmetric] list_eq_iff_nth_eq)

lemma dump_config_fields:
  "dump_config c =
     Object \<lparr>sv_ssid = Some (cfg_ssid c), sv_pass = Some (cfg_pass c),
             sv_lat = Some (cfg_lat c), sv_lon = Some (cfg_lon c),
             sv_auto = Some (cfg_auto c), sv_offset = Some (cfg_offset c)\<rparr>"
  by (simp add: dump_config_def)

lemma startup_dump_config:
  "config (startup io boot (Some (dump_config c)) lf) = c"
  "dust_offset (startup io boot (Some (dump_config c)) lf) = cfg_offset c"
  "auto_cycle (startup io boot (Some (dump_config c)) lf) = cfg_auto c"
  by (simp_all add: startup_def load_config_def initial_device_def dump_config_def
      merge_saved_def Let_def)

lemma save_config_offset_num:
  "save_config io None None None None None (Some (OffNum x)) d =
     (Returned, write_config io (log_calibration io x (d\<lparr>config := (config d)\<lparr>cfg_offset := x\<rparr>\<rparr>)))"
  by (simp add: save_config_def)

lemma calibrate_sensor_eq:
  "calibrate_sensor ce d =
     (let avg = sum_list (collect_samples (cal_adc ce) 500) / 500
      in (write_config (cal_io ce) (log_calibration (cal_io ce) avg
            (d\<lparr>control_pins := map (\<lambda>pin. 0) (control_pins d), dust_offset := avg,
               config := (config d)\<lparr>cfg_offset := avg\<rparr>\<rparr>)))
         \<lparr>msg_text := ''CAL & LOGGED!'', msg_timer := cal_done ce + 2000\<rparr>)"
  by (simp add: calibrate_sensor_def Let_def save_config_offset_num collect_samples_length)

text \<open>
  C4. The calibration takes 500 samples, one converter reading each, and stores their
  arithmetic mean as the offset, in \<open>dust_offset\<close> and in the config. It writes the
  config file: the file then holds the five other keys as they were and the mean
  under \<open>offset\<close>, and a start from that file loads this config and this offset. It
  appends one entry, stamped with the clock and holding the mean, to the calibration
  log. Each of the two writes is attempted once and a write that fails leaves its file
  as it was. The message is "CAL & LOGGED!" and expires 2000 ms after the tick count
  read when the routine finishes. The pins are switched off. A constant reading \<open>k\<close>
  gives the offset \<open>k / 65535 * 3.3\<close>.
\<close>

theorem calibrate_sensor_effect:
  "(let samples = collect_samples (cal_adc ce) 500;
        avg = sum_list samples / real (length samples);
        d' = calibrate_sensor ce d;
        t = io_clock (cal_io ce)
    in length samples = 500
       \<and> samples = map (\<lambda>i. (real (cal_adc ce i) / 65535) * 3.3) [0..<500]
       \<and> dust_offset d' = avg
       \<and> config d' = (config d)\<lparr>cfg_offset := avg\<rparr>
       \<and> (io_cfg_ok (cal_io ce) \<longrightarrow> config_file d' = Some (dump_config ((config d)\<lparr>cfg_offset := avg\<rparr>)))
       \<and> (io_cfg_ok (cal_io ce) \<longrightarrow>
            config_file d' =
              Some (Object \<lparr>sv_ssid = Some (cfg_ssid (config d)), sv_pass = Some (cfg_pass (config d)),
                             sv_lat = Some (cfg_lat (config d)), sv_lon = Some (cfg_lon (config d)),
                             sv_auto = Some (cfg_auto (config d)), sv_offset = Some avg\<rparr>)
            \<and> config (startup io2 boot (config_file d') lf) = (config d)\<lparr>cfg_offset := avg\<rparr>
            \<and> dust_offset (startup io2 boot (config_file d') lf) = avg)
       \<and> (\<not> io_cfg_ok (cal_io ce) \<longrightarrow> config_file d' = config_file d)
       \<and> (io_log_ok (cal_io ce) \<longrightarrow>
            log_file d' = Some ((case log_file d of None \<Rightarrow> [] | Some es \<Rightarrow> es) @
               [((lt_year t, lt_month t, lt_mday t, lt_hour t, lt_minute t), avg)]))
       \<and> (\<not> io_log_ok (cal_io ce) \<longrightarrow> log_file d' = log_file d)
       \<and> msg_text d' = ''CAL & LOGGED!''
       \<and> msg_timer d' = cal_done ce + 2000
       \<and> control_pins d' = map (\<lambda>pin. 0) (control_pins d)
       \<and> ((\<forall>i < 500. cal_adc ce i = k) \<longrightarrow> dust_offset d' = (real k / 65535) * 3.3))"
proof -
  define samples where "samples = collect_samples (cal_adc ce) 500"
  define avg where "avg = sum_list samples / real (length samples)"
  define d' where "d' = calibrate_sensor ce d"
  define t where "t = io_clock (cal_io ce)"
  have len: "length samples = 500" by (simp add: samples_def collect_samples_length)
  have avg500: "avg = sum_list (collect_samples (cal_adc ce) 500) / 500"
    by (simp add: avg_def len) (simp add: samples_def)
  have m: "samples = map (\<lambda>i. (real (cal_adc ce i) / 65535) * 3.3) [0..<500]"
    by (simp only: samples_def collect_samples_map)
  have d'eq: "d' = (write_config (cal_io ce) (log_calibration (cal_io ce) avg
            (d\<lparr>control_pins := map (\<lambda>pin. 0) (control_pins d), dust_offset := avg,
               config := (config d)\<lparr>cfg_offset := avg\<rparr>\<rparr>)))
         \<lparr>msg_text := ''CAL & LOGGED!'', msg_timer := cal_done ce + 2000\<rparr>"
    unfolding d'_def calibrate_sensor_eq Let_def avg500 by (rule refl)
  have 1: "dust_offset d' = avg"
    by (simp add: d'eq write_config_def log_calibration_def Let_def)
  have 2: "config d' = (config d)\<lparr>cfg_offset := avg\<rparr>"
    by (simp add: d'eq write_config_def log_calibration_def Let_def)
  have 3: "config_file d' = Some (dump_config ((config d)\<lparr>cfg_offset := avg\<rparr>))"
    if "io_cfg_ok (cal_io ce)"
    using that by (simp add: d'eq write_config_def log_calibration_def Let_def)
  have 31: "config_file d' =
              Some (Object \<lparr>sv_ssid = Some (cfg_ssid (config d)), sv_pass = Some (cfg_pass (config d)),
                             sv_lat = Some (cfg_lat (config d)), sv_lon = Some (cfg_lon (config d)),
                             sv_auto = Some (cfg_auto (config d)), sv_offset = Some avg\<rparr>)
            \<and> config (startup io2 boot (config_file d') lf) = (config d)\<lparr>cfg_offset := avg\<rparr>
            \<and> dust_offset (startup io2 boot (config_file d') lf) = avg"
    if ok: "io_cfg_ok (cal_io ce)"
  proof -
    have "config_file d' =
              Some (Object \<lparr>sv_ssid = Some (cfg_ssid (config d)), sv_pass = Some (cfg_pass (config d)),
                             sv_lat = Some (cfg_lat (config d)), sv_lon = Some (cfg_lon (config d)),
                             sv_auto = Some (cfg_auto (config d)), sv_offset = Some avg\<rparr>)"
      unfolding 3 [OF ok] by (simp add: dump_config_fields)
    moreover have "config (startup io2 boot (config_file d') lf) = (config d)\<lparr>cfg_offset := avg\<rparr>"
      unfolding 3 [OF ok] by (rule startup_dump_config(1))
    moreover have "dust_offset (startup io2 boot (config_file d') lf) = avg"
      unfolding 3 [OF ok] by (simp add: startup_dump_config(2))
    ultimately show ?thesis by blast
  qed
  have 4: "config_file d' = config_file d" if "\<not> io_cfg_ok (cal_io ce)"
    using that by (simp add: d'eq write_config_def log_calibration_def Let_def)
  have 5: "log_file d' = Some ((case log_file d of None \<Rightarrow> [] | Some es \<Rightarrow> es) @
               [((lt_year t, lt_month t, lt_mday t, lt_hour t, lt_minute t), avg)])"
    if "io_log_ok (cal_io ce)"
    using that by (simp add: d'eq write_config_def log_calibration_def Let_def t_def)
  have 6: "log_file d' = log_file d" if "\<not> io_log_ok (cal_io ce)"
    using that by (simp add: d'eq write_config_def log_calibration_def Let_def)
  have 7: "msg_text d' = ''CAL & LOGGED!''" "msg_timer d' = cal_done ce + 2000"
    by (simp_all add: d'eq)
  have 8: "control_pins d' = map (\<lambda>pin. 0) (control_pins d)"
    by (simp add: d'eq write_config_def log_calibration_def Let_def)
  have 9: "dust_offset d' = (real k / 65535) * 3.3" if "\<forall>i < 500. cal_adc ce i = k"
  proof -
    from that have "samples = replicate 500 ((real k / 65535) * 3.3)"
      unfolding samples_def by (rule collect_samples_const)
    then have "avg = (real k / 65535) * 3.3"
      by (simp add: avg_def sum_list_replicate)
    with 1 show ?thesis by simp
  qed
  from len m 1 2 3 31 4 5 6 7 8 9 show ?thesis
    unfolding Let_def samples_def [symmetric] avg_def [symmetric] d'_def [symmetric] t_def [symmetric]
    by blast
qed

theorem calibrate_sensor_effect_witness:
  "dust_offset (calibrate_sensor (cal (example_env 7 False)) (initial_device 0 None None)) = 0.66
   \<and> log_file (calibrate_sensor (cal (example_env 7 False)) (initial_device 0 None None)) =
        Some [((2026, 1, 2, 3, 4), 0.66)]
   \<and> msg_timer (calibrate_sensor (cal (example_env 7 False)) (initial_device 0 None None)) = 2007
   \<and> config_file (calibrate_sensor (cal (example_env 7 False)) (initial_device 0 None None)) =
        Some (Object \<lparr>sv_ssid = Some [], sv_pass = Some [], sv_lat = Some ''51.7520'',
                       sv_lon = Some ''-1.2577'', sv_auto = Some False, sv_offset = Some 0.66\<rparr>)
   \<and> dust_offset (startup example_io 9
        (config_file (calibrate_sensor (cal (example_env 7 False)) (initial_device 0 None None)))
        None) = 0.66"
proof -
  let ?ce = "cal (example_env 7 False)"
  let ?d = "initial_device 0 None None"
  let ?d' = "calibrate_sensor ?ce ?d"
  let ?avg = "sum_list (collect_samples (cal_adc ?ce) 500)
                / real (length (collect_samples (cal_adc ?ce) 500))"
  note T = calibrate_sensor_effect [where ce = ?ce and d = ?d and k = 13107
      and ?io2.0 = example_io and boot = 9 and lf = None, unfolded Let_def]
  have k: "\<forall>i < 500. cal_adc ?ce i = 13107"
    by (simp add: example_env_def)
  have ok: "io_log_ok (cal_io ?ce)" "io_cfg_ok (cal_io ?ce)"
    by (simp_all add: example_env_def example_io_def)
  have l: "log_file ?d = None"
    by (simp add: initial_device_def)
  have c: "io_clock (cal_io ?ce) =
      \<lparr>lt_year = 2026, lt_month = 1, lt_mday = 2, lt_hour = 3, lt_minute = 4, lt_second = 5\<rparr>"
    "cal_done ?ce = 7"
    by (simp_all add: example_env_def example_io_def)
  have cf: "cfg_ssid (config ?d) = []" "cfg_pass (config ?d) = []"
    "cfg_lat (config ?d) = ''51.7520''" "cfg_lon (config ?d) = ''-1.2577''"
    "cfg_auto (config ?d) = False"
    by (simp_all add: initial_device_def)
  have v: "(real 13107 / 65535) * 3.3 = 0.66" by simp
  from T have a: "dust_offset ?d' = ?avg" by blast
  from T k have b: "dust_offset ?d' = (real 13107 / 65535) * 3.3" by blast
  from T ok(1) have lg: "log_file ?d' = Some ((case log_file ?d of None \<Rightarrow> [] | Some es \<Rightarrow> es) @
      [((lt_year (io_clock (cal_io ?ce)), lt_month (io_clock (cal_io ?ce)),
         lt_mday (io_clock (cal_io ?ce)), lt_hour (io_clock (cal_io ?ce)),
         lt_minute (io_clock (cal_io ?ce))), ?avg)])" by blast
  from T have m: "msg_timer ?d' = cal_done ?ce + 2000" by blast
  from T ok(2) have f: "config_file ?d' =
      Some (Object \<lparr>sv_ssid = Some (cfg_ssid (config ?d)), sv_pass = Some (cfg_pass (config ?d)),
                     sv_lat = Some (cfg_lat (config ?d)), sv_lon = Some (cfg_lon (config ?d)),
                     sv_auto = Some (cfg_auto (config ?d)), sv_offset = Some ?avg\<rparr>)" by blast
  from T ok(2) have r: "dust_offset (startup example_io 9 (config_file ?d') None) = ?avg" by blast
  from a b v have avg: "?avg = 0.66" by simp
  have 1: "dust_offset ?d' = 0.66" using b v by simp
  have 2: "log_file ?d' = Some [((2026, 1, 2, 3, 4), 0.66)]"
    unfolding lg avg l c by simp
  have 3: "msg_timer ?d' = 2007" unfolding m c by simp
  have 4: "config_file ?d' =
        Some (Object \<lparr>sv_ssid = Some [], sv_pass = Some [], sv_lat = Some ''51.7520'',
                       sv_lon = Some ''-1.2577'', sv_auto = Some False, sv_offset = Some 0.66\<rparr>)"
    unfolding f avg cf by (rule refl)
  have 5: "dust_offset (startup example_io 9 (config_file ?d') None) = 0.66"
    unfolding r avg by (rule refl)
  from 1 2 3 4 5 show ?thesis by blast
qed

subsection \<open>Clicks and taps in one pass\<close>

lemma button_edge_events:
  "fst (button_edge e v d) \<in> {None, Some Click, Some CalibrationHold, Some PortalHold}"
  by (simp add: button_edge_def Let_def)

lemma button_edge_vars:
  "fst (button_edge e v d) = Some Click \<Longrightarrow>
     click_count (fst (snd (button_edge e v d))) = click_count v + 1
     \<and> last_click (fst (snd (button_edge e v d))) = now e"
  "fst (button_edge e v d) \<noteq> Some Click \<Longrightarrow>
     click_count (fst (snd (button_edge e v d))) = click_count v
     \<and> last_click (fst (snd (button_edge e v d))) = last_click v"
  by (auto simp add: button_edge_def Let_def split: if_splits)

lemma click_aggregation_quiet:
  assumes "\<not> (click_count v > 0 \<and> now e - last_click v > 250)"
  shows "click_aggregation e v d = (None, v, d)"
proof -
  from assms have "\<not> (click_count v > 0 \<and> ticks_diff (now e) (last_click v) > 250)"
    by (simp add: ticks_diff_def)
  then show ?thesis
    unfolding click_aggregation_def by (simp only: if_False)
qed

lemma click_aggregation_short:
  assumes "click_count v = 1" "now e - last_click v > 250"
  shows "click_aggregation e v d =
     (Some ShortTap, v\<lparr>click_count := 0\<rparr>,
      d\<lparr>auto_cycle := False, mode := (mode d + 1) mod 5, last_mode_change := now e\<rparr>)"
  using assms by (simp add: click_aggregation_def ticks_diff_def VIEWS_def)

lemma click_aggregation_double:
  assumes "click_count v \<ge> 2" "now e - last_click v > 250"
  shows "click_aggregation e v d =
     (Some DoubleTap, v\<lparr>click_count := 0\<rparr>,
      (write_config (tap_io e)
         (d\<lparr>auto_cycle := \<not> auto_cycle d, config := (config d)\<lparr>cfg_auto := \<not> auto_cycle d\<rparr>\<rparr>))
      \<lparr>msg_text := (if \<not> auto_cycle d then ''AUTO ON'' else ''AUTO OFF''),
       msg_timer := now e + 1000\<rparr>)"
  using assms
  by (simp add: click_aggregation_def ticks_diff_def save_config_def write_config_def Let_def)

lemma tick_Ticked:
  assumes "tick e v d = Ticked evs v' d'"
  shows "fst (button_edge e v d) \<noteq> Some PortalHold"
    and "evs = events_of (fst (button_edge e v d))
           (fst (click_aggregation e (fst (snd (button_edge e v d))) (snd (snd (button_edge e v d)))))"
    and "v' = fst (snd (click_aggregation e (fst (snd (button_edge e v d)))
           (snd (snd (button_edge e v d)))))"
  using assms
  by (auto simp add: tick_def Let_def split: prod.splits if_splits option.splits)

lemma tick_clicks:
  assumes "tick e v d = Ticked evs v' d'"
  shows "if Click \<in> set evs
         then click_count v' = click_count v + 1 \<and> last_click v' = now e \<and> filter (\<lambda>x. x = ShortTap \<or> x = DoubleTap) evs = []
         else if click_count v > 0 \<and> now e - last_click v > 250
         then click_count v' = 0 \<and> last_click v' = last_click v
              \<and> filter (\<lambda>x. x = ShortTap \<or> x = DoubleTap) evs = [if click_count v \<ge> 2 then DoubleTap else ShortTap]
         else click_count v' = click_count v \<and> last_click v' = last_click v
              \<and> filter (\<lambda>x. x = ShortTap \<or> x = DoubleTap) evs = []"
proof -
  obtain g1 v1 d1 where be: "button_edge e v d = (g1, v1, d1)" by (cases "button_edge e v d")
  obtain g2 v2 d2 where ca: "click_aggregation e v1 d1 = (g2, v2, d2)"
    by (cases "click_aggregation e v1 d1")
  from tick_Ticked [OF assms] be ca have np: "g1 \<noteq> Some PortalHold"
    and evs: "evs = events_of g1 g2" and v': "v' = v2" by simp_all
  from button_edge_events [of e v d] be np
  have g1: "g1 = None \<or> g1 = Some Click \<or> g1 = Some CalibrationHold" by auto
  show ?thesis
  proof (cases "g1 = Some Click")
    case True
    with button_edge_vars(1) [of e v d] be
    have v1: "click_count v1 = click_count v + 1" "last_click v1 = now e" by simp_all
    then have "click_aggregation e v1 d1 = (None, v1, d1)"
      by (intro click_aggregation_quiet) simp
    with ca have "g2 = None" "v2 = v1" by simp_all
    with True v1 evs v' show ?thesis by (simp add: events_of_def taps_def)
  next
    case False
    with button_edge_vars(2) [of e v d] be
    have v1: "click_count v1 = click_count v" "last_click v1 = last_click v" by simp_all
    from False g1 have nc: "Click \<notin> set (events_of g1 None)" 
      and nt: "filter (\<lambda>x. x = ShortTap \<or> x = DoubleTap) (events_of g1 None) = []"
      by (auto simp add: events_of_def)
    show ?thesis
    proof (cases "click_count v > 0 \<and> now e - last_click v > 250")
      case fire: True
      show ?thesis
      proof (cases "click_count v \<ge> 2")
        case True
        with fire v1 ca click_aggregation_double [of v1 e d1]
        have "g2 = Some DoubleTap" "click_count v2 = 0" "last_click v2 = last_click v"
          by auto
        with fire True False g1 evs v' show ?thesis
          by (auto simp add: events_of_def taps_def)
      next
        case F: False
        with fire have "click_count v1 = 1" using v1 by simp
        with fire v1 ca click_aggregation_short [of v1 e d1]
        have "g2 = Some ShortTap" "click_count v2 = 0" "last_click v2 = last_click v"
          by auto
        with fire F False g1 evs v' show ?thesis
          by (auto simp add: events_of_def taps_def)
      qed
    next
      case quiet: False
      with v1 have "click_aggregation e v1 d1 = (None, v1, d1)"
        by (intro click_aggregation_quiet) simp
      with ca have "g2 = None" "v2 = v1" by simp_all
      with quiet False g1 evs v' v1 show ?thesis
        by (auto simp add: events_of_def taps_def)
    qed
  qed
qed

subsection \<open>Clicks and taps over a run\<close>

lemma taps_Cons:
  "taps ((t, evs) # tr) = filter (\<lambda>x. x = ShortTap \<or> x = DoubleTap) evs @ taps tr"
  by (simp add: taps_def)

lemma taps_Nil: "taps [] = []"
  by (simp add: taps_def)

lemma click_times_Cons:
  "click_times ((t, evs) # tr) = (if Click \<in> set evs then t # click_times tr else click_times tr)"
  by (simp add: click_times_def)

lemma run_times: "fst ` set (run es v d) \<subseteq> now ` set es"
proof (induction es arbitrary: v d)
  case Nil
  show ?case by simp
next
  case (Cons e es)
  show ?case
  proof (cases "tick e v d")
    case (Ticked evs v' d')
    with Cons.IH [of v' d'] show ?thesis by auto
  qed simp_all
qed

lemma click_times_subset: "set (click_times (run es v d)) \<subseteq> now ` set es"
proof -
  have "set (click_times (run es v d)) \<subseteq> fst ` set (run es v d)"
    by (auto simp add: click_times_def)
  with run_times [of es v d] show ?thesis by blast
qed

lemma sorted_head_le:
  assumes "sorted (map now (e # es))" "t \<in> set (click_times (run es v d))"
  shows "now e \<le> t"
  using assms click_times_subset [of es v d] by auto

lemma run_idle:
  "click_count v = 0 \<Longrightarrow> click_times (run es v d) = [] \<Longrightarrow> taps (run es v d) = []"
proof (induction es arbitrary: v d)
  case Nil
  show ?case by (simp add: taps_Nil)
next
  case (Cons e es)
  show ?case
  proof (cases "tick e v d")
    case (Ticked evs v' d')
    with Cons.prems(2) have nc: "Click \<notin> set evs" and rest: "click_times (run es v' d') = []"
      by (auto simp add: click_times_Cons split: if_splits)
    from tick_clicks [OF Ticked] nc Cons.prems(1)
    have "click_count v' = 0" "filter (\<lambda>x. x = ShortTap \<or> x = DoubleTap) evs = []" by auto
    with Cons.IH [OF _ rest] Ticked show ?thesis
      by (simp add: taps_Cons)
  next
    case (InPortal v' d')
    then show ?thesis by (simp add: taps_def)
  next
    case (Crashed err)
    then show ?thesis by (simp add: taps_def)
  qed
qed

lemma run_pending_double:
  "2 \<le> click_count v \<Longrightarrow> click_times (run es v d) = [] \<Longrightarrow>
   PortalHold \<notin> set (concat (map snd (run es v d))) \<Longrightarrow>
   taps (run es v d) =
     (if \<exists>p \<in> set (run es v d). last_click v + 250 < fst p then [DoubleTap] else [])"
proof (induction es arbitrary: v d)
  case Nil
  show ?case by (simp add: taps_Nil)
next
  case (Cons e es)
  show ?case
  proof (cases "tick e v d")
    case (Ticked evs v' d')
    with Cons.prems(2) have nc: "Click \<notin> set evs" and rest: "click_times (run es v' d') = []"
      by (auto simp add: click_times_Cons split: if_splits)
    from Cons.prems(3) Ticked have np: "PortalHold \<notin> set (concat (map snd (run es v' d')))"
      by simp
    have r: "run (e # es) v d = (now e, evs) # run es v' d'" using Ticked by simp
    show ?thesis
    proof (cases "now e - last_click v > 250")
      case True
      with tick_clicks [OF Ticked] nc Cons.prems(1)
      have "click_count v' = 0" "filter (\<lambda>x. x = ShortTap \<or> x = DoubleTap) evs = [DoubleTap]" by auto
      with run_idle [OF _ rest] True show ?thesis
        unfolding r by (simp add: taps_Cons)
    next
      case False
      with tick_clicks [OF Ticked] nc Cons.prems(1)
      have "click_count v' = click_count v" "last_click v' = last_click v"
        "filter (\<lambda>x. x = ShortTap \<or> x = DoubleTap) evs = []" by auto
      with Cons.IH [OF _ rest np] Cons.prems(1) False show ?thesis
        unfolding r by (simp add: taps_Cons)
    qed
  next
    case (InPortal v' d')
    with Cons.prems(3) show ?thesis by simp
  next
    case (Crashed err)
    then show ?thesis by (simp add: taps_def)
  qed
qed

lemma run_pending_single:
  "click_count v = 1 \<Longrightarrow> sorted (map now es) \<Longrightarrow> click_times (run es v d) = [t2] \<Longrightarrow>
   t2 \<le> last_click v + 250 \<Longrightarrow>
   PortalHold \<notin> set (concat (map snd (run es v d))) \<Longrightarrow>
   taps (run es v d) = (if \<exists>p \<in> set (run es v d). t2 + 250 < fst p then [DoubleTap] else [])"
proof (induction es arbitrary: v d)
  case Nil
  then show ?case by (simp add: click_times_def)
next
  case (Cons e es)
  show ?case
  proof (cases "tick e v d")
    case (Ticked evs v' d')
    have r: "run (e # es) v d = (now e, evs) # run es v' d'" using Ticked by simp
    from Cons.prems(5) r have np: "PortalHold \<notin> set (concat (map snd (run es v' d')))"
      by simp
    from Cons.prems(2) have srt: "sorted (map now es)" by simp
    show ?thesis
    proof (cases "Click \<in> set evs")
      case True
      with Cons.prems(3) r have t2: "now e = t2" and rest: "click_times (run es v' d') = []"
        by (simp_all add: click_times_Cons)
      from tick_clicks [OF Ticked] True Cons.prems(1)
      have "click_count v' = 2" "last_click v' = t2" "filter (\<lambda>x. x = ShortTap \<or> x = DoubleTap) evs = []"
        using t2 by auto
      with run_pending_double [OF _ rest np] t2 show ?thesis
        unfolding r by (simp add: taps_Cons)
    next
      case False
      with Cons.prems(3) r have rest: "click_times (run es v' d') = [t2]"
        by (simp add: click_times_Cons)
      then have "t2 \<in> set (click_times (run es v' d'))" by simp
      from sorted_head_le [OF Cons.prems(2) this] have le: "now e \<le> t2" .
      with Cons.prems(4) have "\<not> (now e - last_click v > 250)" by simp
      with tick_clicks [OF Ticked] False
      have "click_count v' = click_count v" "last_click v' = last_click v"
        "filter (\<lambda>x. x = ShortTap \<or> x = DoubleTap) evs = []" by auto
      with Cons.IH [OF _ srt rest _ np] Cons.prems(1,4) le show ?thesis
        unfolding r by (simp add: taps_Cons)
    qed
  next
    case (InPortal v' d')
    with Cons.prems(3) show ?thesis by (simp add: click_times_def)
  next
    case (Crashed err)
    with Cons.prems(3) show ?thesis by (simp add: click_times_def)
  qed
qed

lemma run_two_clicks:
  "click_count v = 0 \<Longrightarrow> sorted (map now es) \<Longrightarrow> click_times (run es v d) = [t1, t2] \<Longrightarrow>
   t2 \<le> t1 + 250 \<Longrightarrow>
   PortalHold \<notin> set (concat (map snd (run es v d))) \<Longrightarrow>
   taps (run es v d) = (if \<exists>p \<in> set (run es v d). t2 + 250 < fst p then [DoubleTap] else [])"
proof (induction es arbitrary: v d)
  case Nil
  then show ?case by (simp add: click_times_def)
next
  case (Cons e es)
  show ?case
  proof (cases "tick e v d")
    case (Ticked evs v' d')
    have r: "run (e # es) v d = (now e, evs) # run es v' d'" using Ticked by simp
    from Cons.prems(5) r have np: "PortalHold \<notin> set (concat (map snd (run es v' d')))"
      by simp
    from Cons.prems(2) have srt: "sorted (map now es)" by simp
    show ?thesis
    proof (cases "Click \<in> set evs")
      case True
      with Cons.prems(3) r have t1: "now e = t1" and rest: "click_times (run es v' d') = [t2]"
        by (simp_all add: click_times_Cons)
      from rest have "t2 \<in> set (click_times (run es v' d'))" by simp
      from sorted_head_le [OF Cons.prems(2) this] have le: "now e \<le> t2" .
      from tick_clicks [OF Ticked] True Cons.prems(1)
      have "click_count v' = 1" "last_click v' = t1" "filter (\<lambda>x. x = ShortTap \<or> x = DoubleTap) evs = []"
        using t1 by auto
      with run_pending_single [OF _ srt rest _ np] Cons.prems(4) le show ?thesis
        unfolding r by (simp add: taps_Cons)
    next
      case False
      with Cons.prems(3) r have rest: "click_times (run es v' d') = [t1, t2]"
        by (simp add: click_times_Cons)
      then have "t2 \<in> set (click_times (run es v' d'))" by simp
      from sorted_head_le [OF Cons.prems(2) this] have le: "now e \<le> t2" .
      from tick_clicks [OF Ticked] False Cons.prems(1)
      have "click_count v' = 0" "filter (\<lambda>x. x = ShortTap \<or> x = DoubleTap) evs = []" by auto
      with Cons.IH [OF _ srt rest Cons.prems(4) np] le show ?thesis
        unfolding r by (simp add: taps_Cons)
    qed
  next
    case (InPortal v' d')
    with Cons.prems(3) show ?thesis by (simp add: click_times_def)
  next
    case (Crashed err)
    with Cons.prems(3) show ?thesis by (simp add: click_times_def)
  qed
qed

subsection \<open>The loop does not crash\<close>

lemma well_formed_initial: "well_formed (initial_device boot cf lf)"
  by (simp add: well_formed_def initial_device_def VIEWS_def)

lemma save_config_well_formed:
  "well_formed (snd (save_config io a b c1 c2 c3 c4 d)) = well_formed d"
  by (simp add: well_formed_def save_config_frame)

lemma calibrate_sensor_well_formed:
  "well_formed d \<Longrightarrow> well_formed (calibrate_sensor ce d)"
  by (simp add: well_formed_def calibrate_sensor_def Let_def save_config_frame)

lemma button_edge_well_formed:
  "well_formed d \<Longrightarrow> well_formed (snd (snd (button_edge e v d)))"
  by (simp add: button_edge_def Let_def calibrate_sensor_well_formed)

lemma click_aggregation_well_formed:
  "well_formed d \<Longrightarrow> well_formed (snd (snd (click_aggregation e v d)))"
proof -
  have lv: "length VIEWS = 5" by (simp add: VIEWS_def)
  assume "well_formed d"
  then show ?thesis
    by (simp add: click_aggregation_def Let_def well_formed_def save_config_frame lv)
qed

lemma read_sensor_well_formed:
  assumes "well_formed d"
  shows "\<exists>d'. read_sensor e d = Some d' \<and> well_formed d'"
proof -
  from assms have "dust_history d \<noteq> []" by (auto simp add: well_formed_def)
  with assms show ?thesis by (simp add: read_sensor_def Let_def well_formed_def)
qed

lemma sync_data_well_formed: "well_formed d \<Longrightarrow> well_formed (sync_data ne d)"
  by (simp add: well_formed_def sync_data_def fetch_weather_def Let_def
      split: weather_reply.splits option.splits)

lemma update_hardware_well_formed:
  "well_formed d \<Longrightarrow> well_formed (snd (update_hardware c d))"
  by (simp add: well_formed_def update_hardware_eq)

lemma emit_telemetry_well_formed: "well_formed d \<Longrightarrow> well_formed (emit_telemetry e d)"
  by (simp add: well_formed_def emit_telemetry_def)

lemma auto_index_bound: "idx < 3 \<Longrightarrow> index_of VIEWS (AUTO_VIEWS ! idx) < 5"
proof -
  assume "idx < 3"
  then have "idx = 0 \<or> idx = 1 \<or> idx = 2" by arith
  then show ?thesis by (auto simp add: VIEWS_def AUTO_VIEWS_def)
qed

lemma auto_cycle_step_well_formed:
  assumes "well_formed d"
  shows "\<exists>d'. auto_cycle_step e d = Some d' \<and> well_formed d'"
proof -
  let ?idx = "if VIEWS ! mode d \<in> set AUTO_VIEWS
          then (index_of AUTO_VIEWS (VIEWS ! mode d) + 1) mod length AUTO_VIEWS else 0"
  have "?idx < 3" by (simp add: AUTO_VIEWS_def)
  then have b: "index_of VIEWS (AUTO_VIEWS ! ?idx) < length VIEWS"
    using auto_index_bound [of ?idx] by (simp add: VIEWS_def)
  from assms have m: "mode d < length VIEWS" by (simp add: well_formed_def)
  show ?thesis
  proof (cases "auto_cycle d \<and> ticks_diff (now e) (last_mode_change d) > 10000")
    case True
    with m have "auto_cycle_step e d =
        Some (d\<lparr>mode := index_of VIEWS (AUTO_VIEWS ! ?idx), last_mode_change := now e\<rparr>)"
      unfolding auto_cycle_step_def Let_def by simp
    moreover have "well_formed (d\<lparr>mode := index_of VIEWS (AUTO_VIEWS ! ?idx),
        last_mode_change := now e\<rparr>)"
      using assms b unfolding well_formed_def by simp
    ultimately show ?thesis by blast
  next
    case False
    then have "auto_cycle_step e d = Some d"
      unfolding auto_cycle_step_def by (simp only: if_False)
    with assms show ?thesis by blast
  qed
qed

lemma render_well_formed:
  assumes "well_formed d"
  shows "\<exists>d'. render e v d = Some d' \<and> well_formed d'"
  using assms update_hardware_well_formed [OF assms, of "dust_val d"]
  by (auto simp add: render_def well_formed_def)

lemma tick_step:
  assumes wf: "well_formed d" and np: "fst (button_edge e v d) \<noteq> Some PortalHold"
  shows "\<exists>d'. well_formed d' \<and>
     tick e v d = Ticked
       (events_of (fst (button_edge e v d))
          (fst (click_aggregation e (fst (snd (button_edge e v d))) (snd (snd (button_edge e v d))))))
       (fst (snd (click_aggregation e (fst (snd (button_edge e v d))) (snd (snd (button_edge e v d))))))
       d'"
proof -
  obtain g1 v1 d1 where be: "button_edge e v d = (g1, v1, d1)" by (cases "button_edge e v d")
  obtain g2 v2 d2 where ca: "click_aggregation e v1 d1 = (g2, v2, d2)"
    by (cases "click_aggregation e v1 d1")
  from button_edge_well_formed [OF wf, of e v] be have "well_formed d1" by simp
  from click_aggregation_well_formed [OF this, of e v1] ca have "well_formed d2" by simp
  from read_sensor_well_formed [OF this] obtain d3
    where rs: "read_sensor e d2 = Some d3" and w3: "well_formed d3" by blast
  define d6 where "d6 = emit_telemetry e (snd (update_hardware (dust_val (sync_data (net e) d3))
      (sync_data (net e) d3)))"
  have "well_formed d6"
    unfolding d6_def
    by (intro emit_telemetry_well_formed update_hardware_well_formed sync_data_well_formed w3)
  from auto_cycle_step_well_formed [OF this] obtain d7
    where ac: "auto_cycle_step e d6 = Some d7" and w7: "well_formed d7" by blast
  from render_well_formed [OF w7] obtain d8
    where rd: "render e v2 d7 = Some d8" and w8: "well_formed d8" by blast
  from np be have "g1 \<noteq> Some PortalHold" by simp
  with be ca rs ac rd have "tick e v d = Ticked (events_of g1 g2) v2 d8"
    by (simp add: tick_def Let_def d6_def)
  with w8 be ca show ?thesis by auto
qed

lemma tick_well_formed:
  assumes "well_formed d"
  shows "tick e v d \<noteq> Crashed err"
    and "tick e v d = Ticked evs v' d' \<Longrightarrow> well_formed d'"
proof -
  show "tick e v d \<noteq> Crashed err"
  proof (cases "fst (button_edge e v d) = Some PortalHold")
    case True
    obtain g1 v1 d1 where "button_edge e v d = (g1, v1, d1)" by (cases "button_edge e v d")
    with True show ?thesis by (simp add: tick_def)
  next
    case False
    from tick_step [OF assms False] show ?thesis by auto
  qed
  show "well_formed d'" if "tick e v d = Ticked evs v' d'"
  proof -
    from tick_Ticked(1) [OF that] have "fst (button_edge e v d) \<noteq> Some PortalHold" .
    from tick_step [OF assms this] obtain evs'' v'' d''
      where "well_formed d''" "tick e v d = Ticked evs'' v'' d''" by blast
    with that show ?thesis by simp
  qed
qed

subsection \<open>Tap recognition\<close>

lemma run_step:
  assumes "well_formed d" "fst (button_edge e v d) \<noteq> Some PortalHold"
  shows "\<exists>d'. well_formed d' \<and>
     run (e # es) v d =
       (now e, events_of (fst (button_edge e v d))
          (fst (click_aggregation e (fst (snd (button_edge e v d))) (snd (snd (button_edge e v d))))))
       # run es (fst (snd (click_aggregation e (fst (snd (button_edge e v d)))
                    (snd (snd (button_edge e v d)))))) d'"
proof -
  from tick_step [OF assms] obtain d' where "well_formed d'"
    "tick e v d = Ticked
       (events_of (fst (button_edge e v d))
          (fst (click_aggregation e (fst (snd (button_edge e v d))) (snd (snd (button_edge e v d))))))
       (fst (snd (click_aggregation e (fst (snd (button_edge e v d))) (snd (snd (button_edge e v d))))))
       d'" by blast
  then show ?thesis by auto
qed

lemma run_pending_one:
  "click_count v = 1 \<Longrightarrow> click_times (run es v d) = [] \<Longrightarrow>
   PortalHold \<notin> set (concat (map snd (run es v d))) \<Longrightarrow>
   taps (run es v d) =
     (if \<exists>p \<in> set (run es v d). last_click v + 250 < fst p then [ShortTap] else [])"
proof (induction es arbitrary: v d)
  case Nil
  show ?case by (simp add: taps_Nil)
next
  case (Cons e es)
  show ?case
  proof (cases "tick e v d")
    case (Ticked evs v' d')
    with Cons.prems(2) have nc: "Click \<notin> set evs" and rest: "click_times (run es v' d') = []"
      by (auto simp add: click_times_Cons split: if_splits)
    from Cons.prems(3) Ticked have np: "PortalHold \<notin> set (concat (map snd (run es v' d')))"
      by simp
    have r: "run (e # es) v d = (now e, evs) # run es v' d'" using Ticked by simp
    show ?thesis
    proof (cases "now e - last_click v > 250")
      case True
      with tick_clicks [OF Ticked] nc Cons.prems(1)
      have "click_count v' = 0" "filter (\<lambda>x. x = ShortTap \<or> x = DoubleTap) evs = [ShortTap]"
        by auto
      with run_idle [OF _ rest] True show ?thesis
        unfolding r by (simp add: taps_Cons)
    next
      case False
      with tick_clicks [OF Ticked] nc Cons.prems(1)
      have "click_count v' = click_count v" "last_click v' = last_click v"
        "filter (\<lambda>x. x = ShortTap \<or> x = DoubleTap) evs = []" by auto
      with Cons.IH [OF _ rest np] Cons.prems(1) False show ?thesis
        unfolding r by (simp add: taps_Cons)
    qed
  next
    case (InPortal v' d')
    with Cons.prems(3) show ?thesis by simp
  next
    case (Crashed err)
    then show ?thesis by (simp add: taps_def)
  qed
qed

lemma run_one_click:
  "click_count v = 0 \<Longrightarrow> sorted (map now es) \<Longrightarrow> click_times (run es v d) = [t1] \<Longrightarrow>
   PortalHold \<notin> set (concat (map snd (run es v d))) \<Longrightarrow>
   taps (run es v d) = (if \<exists>p \<in> set (run es v d). t1 + 250 < fst p then [ShortTap] else [])"
proof (induction es arbitrary: v d)
  case Nil
  then show ?case by (simp add: click_times_def)
next
  case (Cons e es)
  show ?case
  proof (cases "tick e v d")
    case (Ticked evs v' d')
    have r: "run (e # es) v d = (now e, evs) # run es v' d'" using Ticked by simp
    from Cons.prems(4) r have np: "PortalHold \<notin> set (concat (map snd (run es v' d')))"
      by simp
    from Cons.prems(2) have srt: "sorted (map now es)" by simp
    show ?thesis
    proof (cases "Click \<in> set evs")
      case True
      with Cons.prems(3) r have t1: "now e = t1" and rest: "click_times (run es v' d') = []"
        by (simp_all add: click_times_Cons)
      from tick_clicks [OF Ticked] True Cons.prems(1)
      have "click_count v' = 1" "last_click v' = t1"
        "filter (\<lambda>x. x = ShortTap \<or> x = DoubleTap) evs = []"
        using t1 by auto
      with run_pending_one [OF _ rest np] t1 show ?thesis
        unfolding r by (simp add: taps_Cons)
    next
      case False
      with Cons.prems(3) r have rest: "click_times (run es v' d') = [t1]"
        by (simp add: click_times_Cons)
      then have "t1 \<in> set (click_times (run es v' d'))" by simp
      from sorted_head_le [OF Cons.prems(2) this] have le: "now e \<le> t1" .
      from tick_clicks [OF Ticked] False Cons.prems(1)
      have "click_count v' = 0" "filter (\<lambda>x. x = ShortTap \<or> x = DoubleTap) evs = []" by auto
      with Cons.IH [OF _ srt rest np] le show ?thesis
        unfolding r by (simp add: taps_Cons)
    qed
  next
    case (InPortal v' d')
    with Cons.prems(3) show ?thesis by (simp add: click_times_def)
  next
    case (Crashed err)
    with Cons.prems(3) show ?thesis by (simp add: click_times_def)
  qed
qed

text \<open>
  C2. The aggregation acts only when clicks are pending and more than 250 ms have
  passed since the last counted click; otherwise it changes nothing. When it acts, one
  pending click gives one ShortTap (auto-cycle off, next view, time of the change
  stored) and two or more give one DoubleTap (auto-cycle toggled, the flag stored in
  the config and written to the config file, a message for 1000 ms); the count is
  reset, so a pass yields at most one tap, never in the pass that counted a click, and
  a tap that has fired leaves nothing for a later click to add to. Over a run with
  non-decreasing times that starts without pending clicks and counts exactly two
  clicks at most 250 ms apart, the taps are exactly one DoubleTap once a pass later
  than 250 ms after the second click has run, and none before; with exactly one click
  they are exactly one ShortTap.
\<close>

theorem click_aggregation_taps:
  "(\<not> (0 < click_count v \<and> 250 < now e - last_click v) \<longrightarrow>
       click_aggregation e v d = (None, v, d))
   \<and> (click_count v = 1 \<and> 250 < now e - last_click v \<longrightarrow>
       click_aggregation e v d =
         (Some ShortTap, v\<lparr>click_count := 0\<rparr>,
          d\<lparr>auto_cycle := False, mode := (mode d + 1) mod 5, last_mode_change := now e\<rparr>))
   \<and> (2 \<le> click_count v \<and> 250 < now e - last_click v \<longrightarrow>
       click_aggregation e v d =
         (Some DoubleTap, v\<lparr>click_count := 0\<rparr>,
          (write_config (tap_io e)
             (d\<lparr>auto_cycle := \<not> auto_cycle d, config := (config d)\<lparr>cfg_auto := \<not> auto_cycle d\<rparr>\<rparr>))
          \<lparr>msg_text := (if \<not> auto_cycle d then ''AUTO ON'' else ''AUTO OFF''),
           msg_timer := now e + 1000\<rparr>)
       \<and> (io_cfg_ok (tap_io e) \<longrightarrow>
            config_file (snd (snd (click_aggregation e v d))) =
              Some (dump_config ((config d)\<lparr>cfg_auto := \<not> auto_cycle d\<rparr>))))
   \<and> (\<forall>evs v' d'. tick e v d = Ticked evs v' d' \<longrightarrow>
        length (filter (\<lambda>x. x = ShortTap \<or> x = DoubleTap) evs) \<le> 1
        \<and> (ShortTap \<in> set evs \<or> DoubleTap \<in> set evs \<longrightarrow>
             Click \<notin> set evs \<and> 0 < click_count v \<and> 250 < now e - last_click v
             \<and> click_count v' = 0))
   \<and> (click_count v = 0 \<and> sorted (map now es) \<and> click_times (run es v d) = [t1, t2]
        \<and> t2 \<le> t1 + 250 \<and> PortalHold \<notin> set (concat (map snd (run es v d))) \<longrightarrow>
       taps (run es v d) =
         (if \<exists>p \<in> set (run es v d). t2 + 250 < fst p then [DoubleTap] else []))
   \<and> (click_count v = 0 \<and> sorted (map now es) \<and> click_times (run es v d) = [t1]
        \<and> PortalHold \<notin> set (concat (map snd (run es v d))) \<longrightarrow>
       taps (run es v d) =
         (if \<exists>p \<in> set (run es v d). t1 + 250 < fst p then [ShortTap] else []))"
proof -
  have 1: "click_aggregation e v d = (None, v, d)"
    if "\<not> (0 < click_count v \<and> 250 < now e - last_click v)"
    using that by (rule click_aggregation_quiet)
  have 2: "click_aggregation e v d =
         (Some ShortTap, v\<lparr>click_count := 0\<rparr>,
          d\<lparr>auto_cycle := False, mode := (mode d + 1) mod 5, last_mode_change := now e\<rparr>)"
    if "click_count v = 1 \<and> 250 < now e - last_click v"
    using that by (simp add: click_aggregation_short)
  have 3: "click_aggregation e v d =
         (Some DoubleTap, v\<lparr>click_count := 0\<rparr>,
          (write_config (tap_io e)
             (d\<lparr>auto_cycle := \<not> auto_cycle d, config := (config d)\<lparr>cfg_auto := \<not> auto_cycle d\<rparr>\<rparr>))
          \<lparr>msg_text := (if \<not> auto_cycle d then ''AUTO ON'' else ''AUTO OFF''),
           msg_timer := now e + 1000\<rparr>)
       \<and> (io_cfg_ok (tap_io e) \<longrightarrow>
            config_file (snd (snd (click_aggregation e v d))) =
              Some (dump_config ((config d)\<lparr>cfg_auto := \<not> auto_cycle d\<rparr>)))"
    if "2 \<le> click_count v \<and> 250 < now e - last_click v"
    using that by (simp add: click_aggregation_double write_config_def)
  have 4: "length (filter (\<lambda>x. x = ShortTap \<or> x = DoubleTap) evs) \<le> 1
        \<and> (ShortTap \<in> set evs \<or> DoubleTap \<in> set evs \<longrightarrow>
             Click \<notin> set evs \<and> 0 < click_count v \<and> 250 < now e - last_click v
             \<and> click_count v' = 0)"
    if t: "tick e v d = Ticked evs v' d'" for evs v' d'
  proof -
    have m: "(ShortTap \<in> set evs \<or> DoubleTap \<in> set evs) =
        (filter (\<lambda>x. x = ShortTap \<or> x = DoubleTap) evs \<noteq> [])"
      by (auto simp add: filter_empty_conv)
    from tick_clicks [OF t] show ?thesis
      unfolding m by (auto split: if_splits)
  qed
  have 5: "taps (run es v d) =
         (if \<exists>p \<in> set (run es v d). t2 + 250 < fst p then [DoubleTap] else [])"
    if "click_count v = 0 \<and> sorted (map now es) \<and> click_times (run es v d) = [t1, t2]
        \<and> t2 \<le> t1 + 250 \<and> PortalHold \<notin> set (concat (map snd (run es v d)))"
    using that run_two_clicks [of v es d t1 t2] by blast
  have 6: "taps (run es v d) =
         (if \<exists>p \<in> set (run es v d). t1 + 250 < fst p then [ShortTap] else [])"
    if "click_count v = 0 \<and> sorted (map now es) \<and> click_times (run es v d) = [t1]
        \<and> PortalHold \<notin> set (concat (map snd (run es v d)))"
    using that run_one_click [of v es d t1] by blast
  from 1 2 3 4 5 6 show ?thesis by blast
qed

lemma double_tap_run:
  "run double_tap_passes (held_vars 0) (initial_device 0 None None) =
     [(100, [Click]), (200, []), (300, [Click]), (600, [DoubleTap])]"
proof -
  let ?v1 = "\<lparr>last_btn_state = False, btn_start = 0, click_count = 1, last_click = 100\<rparr>"
  let ?v2 = "\<lparr>last_btn_state = True, btn_start = 200, click_count = 1, last_click = 100\<rparr>"
  let ?v3 = "\<lparr>last_btn_state = False, btn_start = 200, click_count = 2, last_click = 300\<rparr>"
  let ?v4 = "\<lparr>last_btn_state = False, btn_start = 200, click_count = 0, last_click = 300\<rparr>"
  have s1: "fst (button_edge (example_env 100 False) (held_vars 0) d) = Some Click"
    "fst (snd (button_edge (example_env 100 False) (held_vars 0) d)) = ?v1" for d
    by (simp_all add: button_edge_def example_env_def held_vars_def ticks_diff_def Let_def)
  have a1: "fst (click_aggregation (example_env 100 False) ?v1 d) = None"
    "fst (snd (click_aggregation (example_env 100 False) ?v1 d)) = ?v1" for d
    by (simp_all add: click_aggregation_def example_env_def ticks_diff_def)
  have s2: "fst (button_edge (example_env 200 True) ?v1 d) = None"
    "fst (snd (button_edge (example_env 200 True) ?v1 d)) = ?v2" for d
    by (simp_all add: button_edge_def example_env_def ticks_diff_def Let_def)
  have a2: "fst (click_aggregation (example_env 200 True) ?v2 d) = None"
    "fst (snd (click_aggregation (example_env 200 True) ?v2 d)) = ?v2" for d
    by (simp_all add: click_aggregation_def example_env_def ticks_diff_def)
  have s3: "fst (button_edge (example_env 300 False) ?v2 d) = Some Click"
    "fst (snd (button_edge (example_env 300 False) ?v2 d)) = ?v3" for d
    by (simp_all add: button_edge_def example_env_def ticks_diff_def Let_def)
  have a3: "fst (click_aggregation (example_env 300 False) ?v3 d) = None"
    "fst (snd (click_aggregation (example_env 300 False) ?v3 d)) = ?v3" for d
    by (simp_all add: click_aggregation_def example_env_def ticks_diff_def)
  have s4: "fst (button_edge (example_env 600 False) ?v3 d) = None"
    "fst (snd (button_edge (example_env 600 False) ?v3 d)) = ?v3" for d
    by (simp_all add: button_edge_def example_env_def ticks_diff_def Let_def)
  have a4: "fst (click_aggregation (example_env 600 False) ?v3 d) = Some DoubleTap"
    "fst (snd (click_aggregation (example_env 600 False) ?v3 d)) = ?v4" for d
    by (simp_all add: click_aggregation_def example_env_def ticks_diff_def Let_def)
  have n: "now (example_env t b) = t" for t b by (simp add: example_env_def)
  from run_step [OF well_formed_initial, of "example_env 100 False" "held_vars 0" 0 None None
      "[example_env 200 True, example_env 300 False, example_env 600 False]"]
  obtain d1 where w1: "well_formed d1" and r1:
    "run double_tap_passes (held_vars 0) (initial_device 0 None None) =
       (100, [Click]) # run [example_env 200 True, example_env 300 False, example_env 600 False] ?v1 d1"
    unfolding double_tap_passes_def s1 a1 n by (auto simp add: events_of_def)
  from run_step [OF w1, of "example_env 200 True" ?v1 "[example_env 300 False, example_env 600 False]"]
  obtain d2 where w2: "well_formed d2" and r2:
    "run [example_env 200 True, example_env 300 False, example_env 600 False] ?v1 d1 =
       (200, []) # run [example_env 300 False, example_env 600 False] ?v2 d2"
    unfolding s2 a2 n by (auto simp add: events_of_def)
  from run_step [OF w2, of "example_env 300 False" ?v2 "[example_env 600 False]"]
  obtain d3 where w3: "well_formed d3" and r3:
    "run [example_env 300 False, example_env 600 False] ?v2 d2 =
       (300, [Click]) # run [example_env 600 False] ?v3 d3"
    unfolding s3 a3 n by (auto simp add: events_of_def)
  from run_step [OF w3, of "example_env 600 False" ?v3 "[]"]
  obtain d4 where r4: "run [example_env 600 False] ?v3 d3 = [(600, [DoubleTap])]"
    unfolding s4 a4 n by (auto simp add: events_of_def)
  show ?thesis unfolding r1 r2 r3 r4 by (rule refl)
qed

theorem click_aggregation_taps_witness:
  "click_times (run double_tap_passes (held_vars 0) (initial_device 0 None None)) = [100, 300]
   \<and> taps (run double_tap_passes (held_vars 0) (initial_device 0 None None)) = [DoubleTap]"
proof -
  let ?r = "run double_tap_passes (held_vars 0) (initial_device 0 None None)"
  have c: "click_count (held_vars 0) = 0" by (simp add: held_vars_def)
  have s: "sorted (map now double_tap_passes)"
    by (simp add: double_tap_passes_def example_env_def)
  have ct: "click_times ?r = [100, 300]"
    unfolding double_tap_run by (simp add: click_times_def)
  have np: "PortalHold \<notin> set (concat (map snd ?r))"
    unfolding double_tap_run by simp
  have ex: "\<exists>p \<in> set ?r. 300 + 250 < fst p"
    unfolding double_tap_run by simp
  have le: "(300::int) \<le> 100 + 250" by simp
  from click_aggregation_taps [of "held_vars 0" _ "initial_device 0 None None" double_tap_passes 100 300]
  have "taps ?r = (if \<exists>p \<in> set ?r. 300 + 250 < fst p then [DoubleTap] else [])"
    using c s ct np le by blast
  with ex ct show ?thesis by simp
qed

subsection \<open>What a tap leaves of the stored configuration\<close>

lemma read_sensor_config:
  assumes "read_sensor e d = Some d'"
  shows "config d' = config d" "config_file d' = config_file d" "log_file d' = log_file d"
    "auto_cycle d' = auto_cycle d"
  using assms by (auto simp add: read_sensor_def Let_def split: if_splits)

lemma sync_data_config:
  "config (sync_data ne d) = config d" "config_file (sync_data ne d) = config_file d"
  "log_file (sync_data ne d) = log_file d" "auto_cycle (sync_data ne d) = auto_cycle d"
  by (simp_all add: sync_data_def fetch_weather_def Let_def
      split: weather_reply.splits option.splits)

lemma update_hardware_config:
  "config (snd (update_hardware c d)) = config d"
  "config_file (snd (update_hardware c d)) = config_file d"
  "log_file (snd (update_hardware c d)) = log_file d"
  "auto_cycle (snd (update_hardware c d)) = auto_cycle d"
  by (simp_all add: update_hardware_eq)

lemma emit_telemetry_config:
  "config (emit_telemetry e d) = config d" "config_file (emit_telemetry e d) = config_file d"
  "log_file (emit_telemetry e d) = log_file d" "auto_cycle (emit_telemetry e d) = auto_cycle d"
  by (simp_all add: emit_telemetry_def)

lemma auto_cycle_step_config:
  assumes "auto_cycle_step e d = Some d'"
  shows "config d' = config d" "config_file d' = config_file d" "log_file d' = log_file d"
    "auto_cycle d' = auto_cycle d"
  using assms by (auto simp add: auto_cycle_step_def Let_def split: if_splits)

lemma render_config:
  assumes "render e v d = Some d'"
  shows "config d' = config d" "config_file d' = config_file d" "log_file d' = log_file d"
    "auto_cycle d' = auto_cycle d"
  using assms by (auto simp add: render_def update_hardware_config split: if_splits)

lemma tick_tail_config:
  assumes "tick e v d = Ticked evs v' d'"
  shows "config d' = config (snd (snd (click_aggregation e (fst (snd (button_edge e v d)))
            (snd (snd (button_edge e v d))))))"
    and "config_file d' = config_file (snd (snd (click_aggregation e (fst (snd (button_edge e v d)))
            (snd (snd (button_edge e v d))))))"
    and "log_file d' = log_file (snd (snd (click_aggregation e (fst (snd (button_edge e v d)))
            (snd (snd (button_edge e v d))))))"
    and "auto_cycle d' = auto_cycle (snd (snd (click_aggregation e (fst (snd (button_edge e v d)))
            (snd (snd (button_edge e v d))))))"
proof -
  obtain g1 v1 d1 where be: "button_edge e v d = (g1, v1, d1)" by (cases "button_edge e v d")
  obtain g2 v2 d2 where ca: "click_aggregation e v1 d1 = (g2, v2, d2)"
    by (cases "click_aggregation e v1 d1")
  from assms be ca obtain d3 where rs: "read_sensor e d2 = Some d3"
    by (auto simp add: tick_def split: if_splits option.splits)
  define d6 where "d6 = emit_telemetry e (snd (update_hardware (dust_val (sync_data (net e) d3))
      (sync_data (net e) d3)))"
  from assms be ca rs obtain d7 where ac: "auto_cycle_step e d6 = Some d7"
      and rd: "render e v2 d7 = Some d'"
    by (auto simp add: tick_def Let_def d6_def split: if_splits option.splits)
  have 6: "config d6 = config d3" "config_file d6 = config_file d3" "log_file d6 = log_file d3"
    "auto_cycle d6 = auto_cycle d3"
    by (simp_all add: d6_def emit_telemetry_config update_hardware_config sync_data_config)
  have "config d' = config d2 \<and> config_file d' = config_file d2 \<and> log_file d' = log_file d2
      \<and> auto_cycle d' = auto_cycle d2"
    using render_config [OF rd] auto_cycle_step_config [OF ac] 6 read_sensor_config [OF rs]
    by simp
  with be ca show "config d' = config (snd (snd (click_aggregation e (fst (snd (button_edge e v d)))
            (snd (snd (button_edge e v d))))))"
    and "config_file d' = config_file (snd (snd (click_aggregation e (fst (snd (button_edge e v d)))
            (snd (snd (button_edge e v d))))))"
    and "log_file d' = log_file (snd (snd (click_aggregation e (fst (snd (button_edge e v d)))
            (snd (snd (button_edge e v d))))))"
    and "auto_cycle d' = auto_cycle (snd (snd (click_aggregation e (fst (snd (button_edge e v d)))
            (snd (snd (button_edge e v d))))))"
    by simp_all
qed

lemma button_edge_no_calibration:
  assumes "fst (button_edge e v d) \<noteq> Some CalibrationHold"
  shows "snd (snd (button_edge e v d)) = d"
  using assms by (auto simp add: button_edge_def Let_def split: if_splits)

lemma click_aggregation_cases:
  "(fst (click_aggregation e v d) = None \<and> click_aggregation e v d = (None, v, d))
   \<or> (fst (click_aggregation e v d) = Some ShortTap \<and> click_count v = 1
       \<and> 250 < now e - last_click v)
   \<or> (fst (click_aggregation e v d) = Some DoubleTap \<and> 2 \<le> click_count v
       \<and> 250 < now e - last_click v)"
proof (cases "0 < click_count v \<and> 250 < now e - last_click v")
  case False
  from click_aggregation_quiet [OF this] show ?thesis by simp
next
  case True
  show ?thesis
  proof (cases "2 \<le> click_count v")
    case True
    with \<open>0 < click_count v \<and> 250 < now e - last_click v\<close>
      click_aggregation_double [of v e d] show ?thesis by simp
  next
    case False
    with True have "click_count v = 1" by simp
    with True click_aggregation_short [of v e d] show ?thesis by simp
  qed
qed

lemma startup_auto_cycle:
  "auto_cycle (startup io boot cf lf) =
     (case cf of Some (Object sv) \<Rightarrow> (case sv_auto sv of Some a \<Rightarrow> a | None \<Rightarrow> False)
      | _ \<Rightarrow> False)"
  by (simp add: startup_def load_config_def initial_device_def merge_saved_def
      save_config_frame Let_def split: option.splits file_content.splits)

text \<open>
  C10. A ShortTap switches the run-time flag \<open>auto_cycle\<close> off and selects the next view
  without a call of \<open>save_config\<close>: the config dictionary with its \<open>auto\<close> key, the
  config file and the calibration log are as before, in the aggregation step and at
  the end of the whole pass (unless the same pass also ran a calibration). The next
  start therefore loads the same state as it would have loaded without the tap, and
  the flag it loads is the one stored in the file, not the one the tap set.
\<close>

theorem short_tap_leaves_config:
  "(click_count v = 1 \<and> 250 < now e - last_click v \<longrightarrow>
      fst (click_aggregation e v d) = Some ShortTap
      \<and> auto_cycle (snd (snd (click_aggregation e v d))) = False
      \<and> mode (snd (snd (click_aggregation e v d))) = (mode d + 1) mod 5
      \<and> config (snd (snd (click_aggregation e v d))) = config d
      \<and> config_file (snd (snd (click_aggregation e v d))) = config_file d
      \<and> log_file (snd (snd (click_aggregation e v d))) = log_file d
      \<and> startup io boot (config_file (snd (snd (click_aggregation e v d)))) lf =
          startup io boot (config_file d) lf)
   \<and> (\<forall>evs v' d'. tick e v d = Ticked evs v' d' \<and> ShortTap \<in> set evs
          \<and> CalibrationHold \<notin> set evs \<longrightarrow>
        auto_cycle d' = False \<and> config d' = config d \<and> config_file d' = config_file d
        \<and> log_file d' = log_file d
        \<and> auto_cycle (startup io boot (config_file d') lf) =
            auto_cycle (startup io boot (config_file d) lf))
   \<and> auto_cycle (startup io boot (Some (dump_config c)) lf) = cfg_auto c
   \<and> auto_cycle (startup io boot cf lf) =
       (case cf of Some (Object sv) \<Rightarrow> (case sv_auto sv of Some a \<Rightarrow> a | None \<Rightarrow> False)
        | _ \<Rightarrow> False)"
proof -
  have 1: "fst (click_aggregation e v d) = Some ShortTap
      \<and> auto_cycle (snd (snd (click_aggregation e v d))) = False
      \<and> mode (snd (snd (click_aggregation e v d))) = (mode d + 1) mod 5
      \<and> config (snd (snd (click_aggregation e v d))) = config d
      \<and> config_file (snd (snd (click_aggregation e v d))) = config_file d
      \<and> log_file (snd (snd (click_aggregation e v d))) = log_file d
      \<and> startup io boot (config_file (snd (snd (click_aggregation e v d)))) lf =
          startup io boot (config_file d) lf"
    if "click_count v = 1 \<and> 250 < now e - last_click v"
    using that by (simp add: click_aggregation_short)
  have 2: "auto_cycle d' = False \<and> config d' = config d \<and> config_file d' = config_file d
        \<and> log_file d' = log_file d
        \<and> auto_cycle (startup io boot (config_file d') lf) =
            auto_cycle (startup io boot (config_file d) lf)"
    if h: "tick e v d = Ticked evs v' d' \<and> ShortTap \<in> set evs \<and> CalibrationHold \<notin> set evs"
    for evs v' d'
  proof -
    from h have t: "tick e v d = Ticked evs v' d'" and st: "ShortTap \<in> set evs"
      and nc: "CalibrationHold \<notin> set evs" by simp_all
    let ?v1 = "fst (snd (button_edge e v d))"
    let ?d1 = "snd (snd (button_edge e v d))"
    from tick_Ticked(2) [OF t] have evs: "evs = events_of (fst (button_edge e v d))
        (fst (click_aggregation e ?v1 ?d1))" .
    from nc evs have "fst (button_edge e v d) \<noteq> Some CalibrationHold"
      by (auto simp add: events_of_def)
    from button_edge_no_calibration [OF this] have d1: "?d1 = d" .
    from st evs button_edge_events [of e v d]
    have "fst (click_aggregation e ?v1 ?d1) = Some ShortTap"
      by (auto simp add: events_of_def split: option.splits)
    with click_aggregation_cases [of e ?v1 ?d1]
    have "click_count ?v1 = 1 \<and> 250 < now e - last_click ?v1" by auto
    from click_aggregation_short [of ?v1 e ?d1] this
    have "click_aggregation e ?v1 ?d1 = (Some ShortTap, ?v1\<lparr>click_count := 0\<rparr>,
        ?d1\<lparr>auto_cycle := False, mode := (mode ?d1 + 1) mod 5, last_mode_change := now e\<rparr>)"
      by simp
    with tick_tail_config [OF t] d1 show ?thesis by simp
  qed
  have 4: "auto_cycle (startup io boot cf lf) =
       (case cf of Some (Object sv) \<Rightarrow> (case sv_auto sv of Some a \<Rightarrow> a | None \<Rightarrow> False)
        | _ \<Rightarrow> False)" for cf
    by (rule startup_auto_cycle)
  have 3: "auto_cycle (startup io boot (Some (dump_config c)) lf) = cfg_auto c"
    by (simp add: startup_auto_cycle dump_config_def)
  from 1 2 3 4 show ?thesis by blast
qed

theorem short_tap_leaves_config_witness:
  "auto_cycle (startup example_io 0 (Some auto_on_file) None)
   \<and> \<not> auto_cycle (snd (snd (click_aggregation (example_env 400 False) one_click_vars
            (startup example_io 0 (Some auto_on_file) None))))
   \<and> config_file (snd (snd (click_aggregation (example_env 400 False) one_click_vars
            (startup example_io 0 (Some auto_on_file) None)))) = Some auto_on_file
   \<and> auto_cycle (startup example_io 5 (config_file (snd (snd (click_aggregation
            (example_env 400 False) one_click_vars
            (startup example_io 0 (Some auto_on_file) None))))) None)"
proof -
  let ?d = "startup example_io 0 (Some auto_on_file) None"
  let ?d' = "snd (snd (click_aggregation (example_env 400 False) one_click_vars ?d))"
  have p: "click_count one_click_vars = 1
      \<and> 250 < now (example_env 400 False) - last_click one_click_vars"
    by (simp add: one_click_vars_def example_env_def)
  have f: "config_file ?d = Some auto_on_file"
    by (simp add: startup_def load_config_def initial_device_def auto_on_file_def
        dump_config_def Let_def)
  note T = short_tap_leaves_config [of one_click_vars "example_env 400 False" ?d example_io 5 None
      "\<lparr>cfg_ssid = ''net'', cfg_pass = ''pw'', cfg_lat = ''51.7520'',
        cfg_lon = ''-1.2577'', cfg_auto = True, cfg_offset = 0.6\<rparr>" "Some auto_on_file"]
  from T p have a: "auto_cycle ?d' = False" by blast
  from T p have b: "config_file ?d' = config_file ?d" by blast
  from T have c: "auto_cycle (startup example_io 5 (Some auto_on_file) None)"
    unfolding auto_on_file_def by simp
  have d0: "auto_cycle ?d"
    by (simp add: startup_def load_config_def initial_device_def auto_on_file_def
        dump_config_def merge_saved_def Let_def)
  from a b c d0 f show ?thesis by simp
qed

subsection \<open>Background tasks\<close>

lemma sync_data_offline: "\<not> connected ne \<Longrightarrow> sync_data ne d = d"
  by (simp add: sync_data_def)

lemma sync_data_ntp:
  "last_ntp_update (sync_data ne d) =
     (if connected ne \<and> 86400000 < sync_now ne - last_ntp_update d \<and> ntp_ok ne
      then sync_now ne else last_ntp_update d)"
  by (simp add: sync_data_def fetch_weather_def ticks_diff_def Let_def
      split: weather_reply.splits option.splits)

lemma fetch_weather_failed:
  assumes "weather ne = RequestFailed \<or> weather ne = Body None
     \<or> (\<exists>cw. weather ne = Body (Some cw) \<and> temperature cw = None)"
  shows "fetch_weather ne d = d"
  using assms by (auto simp add: fetch_weather_def)

lemma fetch_weather_no_code:
  assumes "weather ne = Body (Some cw)" "weathercode cw = None"
  shows "last_weather_update (fetch_weather ne d) = last_weather_update d"
    and "weather_desc (fetch_weather ne d) = weather_desc d"
  using assms by (simp_all add: fetch_weather_def Let_def split: option.splits)

lemma fetch_weather_frame:
  "last_ntp_update (fetch_weather ne d) = last_ntp_update d"
  by (simp add: fetch_weather_def Let_def split: weather_reply.splits option.splits)

lemma sync_data_weather_failed:
  assumes "weather ne = RequestFailed \<or> weather ne = Body None
     \<or> (\<exists>cw. weather ne = Body (Some cw) \<and> temperature cw = None)"
  shows "weather_temp (sync_data ne d) = weather_temp d"
    and "weather_desc (sync_data ne d) = weather_desc d"
    and "last_weather_update (sync_data ne d) = last_weather_update d"
  by (simp_all add: sync_data_def Let_def fetch_weather_failed [OF assms])

lemma sync_data_weather_no_code:
  assumes "weather ne = Body (Some cw)" "weathercode cw = None"
  shows "weather_desc (sync_data ne d) = weather_desc d"
    and "last_weather_update (sync_data ne d) = last_weather_update d"
  by (simp_all add: sync_data_def Let_def fetch_weather_no_code [OF assms])

lemma sync_data_weather_ok:
  assumes "connected ne" "900000 < sync_now ne - last_weather_update d"
    "weather ne = Body (Some cw)" "temperature cw = Some t" "weathercode cw = Some k"
  shows "weather_temp (sync_data ne d) = show_int (py_int_of_float t) @ ''C''"
    and "weather_desc (sync_data ne d) = weather_text k"
    and "last_weather_update (sync_data ne d) = sync_now ne"
  using assms by (simp_all add: sync_data_def Let_def fetch_weather_def ticks_diff_def)

lemma sync_data_not_due:
  assumes "\<not> 900000 < sync_now ne - last_weather_update d"
  shows "weather_temp (sync_data ne d) = weather_temp d"
    and "weather_desc (sync_data ne d) = weather_desc d"
    and "last_weather_update (sync_data ne d) = last_weather_update d"
  using assms by (simp_all add: sync_data_def Let_def ticks_diff_def)

lemma read_sensor_frame:
  assumes "read_sensor e d = Some d'"
  shows "serial_out d' = serial_out d" "last_serial d' = last_serial d"
    "last_ntp_update d' = last_ntp_update d" "last_weather_update d' = last_weather_update d"
    "weather_temp d' = weather_temp d" "weather_desc d' = weather_desc d"
  using assms by (auto simp add: read_sensor_def Let_def split: if_splits)

lemma emit_telemetry_due:
  "(1000 \<le> now e - (case last_serial d of None \<Rightarrow> 0 | Some t \<Rightarrow> t) \<longrightarrow>
      (\<exists>r. serial_out (emit_telemetry e d) = serial_out d @ [r] \<and> tm_ts r = clock e
           \<and> tm_rssi r = rssi e)
      \<and> last_serial (emit_telemetry e d) = Some (now e))
   \<and> (\<not> 1000 \<le> now e - (case last_serial d of None \<Rightarrow> 0 | Some t \<Rightarrow> t) \<longrightarrow>
      emit_telemetry e d = d)"
  by (simp add: emit_telemetry_def ticks_diff_def)

lemma tick_telemetry:
  assumes t: "tick e v d = Ticked evs v' d'"
  shows "(1000 \<le> now e - (case last_serial d of None \<Rightarrow> 0 | Some t \<Rightarrow> t) \<longrightarrow>
      (\<exists>r. serial_out d' = serial_out d @ [r] \<and> tm_ts r = clock e \<and> tm_rssi r = rssi e)
      \<and> last_serial d' = Some (now e))
   \<and> (\<not> 1000 \<le> now e - (case last_serial d of None \<Rightarrow> 0 | Some t \<Rightarrow> t) \<longrightarrow>
      serial_out d' = serial_out d \<and> last_serial d' = last_serial d)"
proof -
  obtain g1 v1 d1 where be: "button_edge e v d = (g1, v1, d1)" by (cases "button_edge e v d")
  obtain g2 v2 d2 where ca: "click_aggregation e v1 d1 = (g2, v2, d2)"
    by (cases "click_aggregation e v1 d1")
  have s1: "serial_out d1 = serial_out d" "last_serial d1 = last_serial d"
    using button_edge_frame(3,4) [of e v d] be by simp_all
  have s2: "serial_out d2 = serial_out d" "last_serial d2 = last_serial d"
    using click_aggregation_frame(4,5) [of e v1 d1] ca s1 by simp_all
  from t be ca obtain d3 where rs: "read_sensor e d2 = Some d3"
    by (auto simp add: tick_def split: if_splits option.splits)
  define d5 where "d5 = snd (update_hardware (dust_val (sync_data (net e) d3))
      (sync_data (net e) d3))"
  from t be ca rs obtain d7 where ac: "auto_cycle_step e (emit_telemetry e d5) = Some d7"
      and rd: "render e v2 d7 = Some d'"
    by (auto simp add: tick_def Let_def d5_def split: if_splits option.splits)
  have s5: "serial_out d5 = serial_out d" "last_serial d5 = last_serial d"
    using read_sensor_frame(1,2) [OF rs] s2
    by (simp_all add: d5_def update_hardware_frame sync_data_frame)
  have s': "serial_out d' = serial_out (emit_telemetry e d5)"
    "last_serial d' = last_serial (emit_telemetry e d5)"
    using auto_cycle_step_frame(3,4) [OF ac] render_frame(3,4) [OF rd] by simp_all
  show ?thesis
  proof (cases "1000 \<le> now e - (case last_serial d of None \<Rightarrow> 0 | Some t \<Rightarrow> t)")
    case True
    with emit_telemetry_due [of e d5] s5
    have "(\<exists>r. serial_out (emit_telemetry e d5) = serial_out d @ [r] \<and> tm_ts r = clock e
           \<and> tm_rssi r = rssi e) \<and> last_serial (emit_telemetry e d5) = Some (now e)"
      by simp
    with True s' show ?thesis by simp
  next
    case False
    with emit_telemetry_due [of e d5] s5 have "emit_telemetry e d5 = d5" by simp
    with False s' s5 show ?thesis by simp
  qed
qed

lemma tick_offline:
  assumes t: "tick e v d = Ticked evs v' d'" and off: "\<not> connected (net e)"
  shows "last_ntp_update d' = last_ntp_update d \<and> last_weather_update d' = last_weather_update d
     \<and> weather_temp d' = weather_temp d \<and> weather_desc d' = weather_desc d"
proof -
  obtain g1 v1 d1 where be: "button_edge e v d = (g1, v1, d1)" by (cases "button_edge e v d")
  obtain g2 v2 d2 where ca: "click_aggregation e v1 d1 = (g2, v2, d2)"
    by (cases "click_aggregation e v1 d1")
  have s1: "last_ntp_update d1 = last_ntp_update d" "last_weather_update d1 = last_weather_update d"
    "weather_temp d1 = weather_temp d" "weather_desc d1 = weather_desc d"
    using button_edge_frame(5-8) [of e v d] be by simp_all
  have s2: "last_ntp_update d2 = last_ntp_update d" "last_weather_update d2 = last_weather_update d"
    "weather_temp d2 = weather_temp d" "weather_desc d2 = weather_desc d"
    using click_aggregation_frame(6-9) [of e v1 d1] ca s1 by simp_all
  from t be ca obtain d3 where rs: "read_sensor e d2 = Some d3"
    by (auto simp add: tick_def split: if_splits option.splits)
  define d6 where "d6 = emit_telemetry e (snd (update_hardware (dust_val (sync_data (net e) d3))
      (sync_data (net e) d3)))"
  from t be ca rs obtain d7 where ac: "auto_cycle_step e d6 = Some d7"
      and rd: "render e v2 d7 = Some d'"
    by (auto simp add: tick_def Let_def d6_def split: if_splits option.splits)
  have s6: "last_ntp_update d6 = last_ntp_update d" "last_weather_update d6 = last_weather_update d"
    "weather_temp d6 = weather_temp d" "weather_desc d6 = weather_desc d"
    using read_sensor_frame(3-6) [OF rs] s2
    by (simp_all add: d6_def emit_telemetry_frame update_hardware_frame
        sync_data_offline [OF off])
  with auto_cycle_step_frame(5-8) [OF ac] render_frame(5-8) [OF rd] show ?thesis by simp
qed

text \<open>
  C5, as amended. Without a link \<open>sync_data\<close> changes nothing: neither task runs and
  both time stamps stay. The time stamp of the time sync advances only when the task is
  due and \<open>settime\<close> succeeds. When the weather request fails, or the answer lacks
  \<open>current_weather\<close> or a usable temperature, the cached temperature and description
  and the time stamp are all kept; when only the weather code is missing, the
  description and the time stamp are kept. A complete answer stores temperature,
  description and time stamp. In every pass of the loop that completes, whatever the
  link and the answers are, one telemetry record is appended exactly when at least
  1000 ms have passed since the last one (since tick 0 for the first), and then the
  time of emission is stored; with the link down the pass leaves both time stamps and
  the cached weather as they were.
\<close>

theorem background_tasks:
  "(\<not> connected ne \<longrightarrow> sync_data ne d = d)
   \<and> last_ntp_update (sync_data ne d) =
       (if connected ne \<and> 86400000 < sync_now ne - last_ntp_update d \<and> ntp_ok ne
        then sync_now ne else last_ntp_update d)
   \<and> (weather ne = RequestFailed \<or> weather ne = Body None
        \<or> (\<exists>cw. weather ne = Body (Some cw) \<and> temperature cw = None) \<longrightarrow>
       weather_temp (sync_data ne d) = weather_temp d
       \<and> weather_desc (sync_data ne d) = weather_desc d
       \<and> last_weather_update (sync_data ne d) = last_weather_update d)
   \<and> ((\<exists>cw. weather ne = Body (Some cw) \<and> weathercode cw = None) \<longrightarrow>
       weather_desc (sync_data ne d) = weather_desc d
       \<and> last_weather_update (sync_data ne d) = last_weather_update d)
   \<and> (\<not> 900000 < sync_now ne - last_weather_update d \<longrightarrow>
       weather_temp (sync_data ne d) = weather_temp d
       \<and> weather_desc (sync_data ne d) = weather_desc d
       \<and> last_weather_update (sync_data ne d) = last_weather_update d)
   \<and> (connected ne \<and> 900000 < sync_now ne - last_weather_update d
        \<and> weather ne = Body (Some \<lparr>temperature = Some t, weathercode = Some k\<rparr>) \<longrightarrow>
       weather_temp (sync_data ne d) = show_int (py_int_of_float t) @ ''C''
       \<and> weather_desc (sync_data ne d) = weather_text k
       \<and> last_weather_update (sync_data ne d) = sync_now ne)
   \<and> (\<forall>v evs v' d'. tick e v d = Ticked evs v' d' \<longrightarrow>
        (1000 \<le> now e - (case last_serial d of None \<Rightarrow> 0 | Some t \<Rightarrow> t) \<longrightarrow>
           (\<exists>r. serial_out d' = serial_out d @ [r] \<and> tm_ts r = clock e \<and> tm_rssi r = rssi e)
           \<and> last_serial d' = Some (now e))
        \<and> (\<not> 1000 \<le> now e - (case last_serial d of None \<Rightarrow> 0 | Some t \<Rightarrow> t) \<longrightarrow>
           serial_out d' = serial_out d \<and> last_serial d' = last_serial d)
        \<and> (\<not> connected (net e) \<longrightarrow>
           last_ntp_update d' = last_ntp_update d
           \<and> last_weather_update d' = last_weather_update d
           \<and> weather_temp d' = weather_temp d \<and> weather_desc d' = weather_desc d))"
proof -
  have 1: "sync_data ne d = d" if "\<not> connected ne"
    using that by (rule sync_data_offline)
  have 2: "last_ntp_update (sync_data ne d) =
       (if connected ne \<and> 86400000 < sync_now ne - last_ntp_update d \<and> ntp_ok ne
        then sync_now ne else last_ntp_update d)"
    by (rule sync_data_ntp)
  have 3: "weather_temp (sync_data ne d) = weather_temp d
       \<and> weather_desc (sync_data ne d) = weather_desc d
       \<and> last_weather_update (sync_data ne d) = last_weather_update d"
    if "weather ne = RequestFailed \<or> weather ne = Body None
        \<or> (\<exists>cw. weather ne = Body (Some cw) \<and> temperature cw = None)"
    using sync_data_weather_failed [OF that] by simp
  have 4: "weather_desc (sync_data ne d) = weather_desc d
       \<and> last_weather_update (sync_data ne d) = last_weather_update d"
    if "\<exists>cw. weather ne = Body (Some cw) \<and> weathercode cw = None"
    using that sync_data_weather_no_code [of ne _ d] by blast
  have 5: "weather_temp (sync_data ne d) = weather_temp d
       \<and> weather_desc (sync_data ne d) = weather_desc d
       \<and> last_weather_update (sync_data ne d) = last_weather_update d"
    if "\<not> 900000 < sync_now ne - last_weather_update d"
    using sync_data_not_due [OF that] by simp
  have 6: "weather_temp (sync_data ne d) = show_int (py_int_of_float t) @ ''C''
       \<and> weather_desc (sync_data ne d) = weather_text k
       \<and> last_weather_update (sync_data ne d) = sync_now ne"
    if "connected ne \<and> 900000 < sync_now ne - last_weather_update d
        \<and> weather ne = Body (Some \<lparr>temperature = Some t, weathercode = Some k\<rparr>)"
    using that sync_data_weather_ok [of ne d "\<lparr>temperature = Some t, weathercode = Some k\<rparr>" t k]
    by simp
  have 7: "(1000 \<le> now e - (case last_serial d of None \<Rightarrow> 0 | Some t \<Rightarrow> t) \<longrightarrow>
           (\<exists>r. serial_out d' = serial_out d @ [r] \<and> tm_ts r = clock e \<and> tm_rssi r = rssi e)
           \<and> last_serial d' = Some (now e))
        \<and> (\<not> 1000 \<le> now e - (case last_serial d of None \<Rightarrow> 0 | Some t \<Rightarrow> t) \<longrightarrow>
           serial_out d' = serial_out d \<and> last_serial d' = last_serial d)
        \<and> (\<not> connected (net e) \<longrightarrow>
           last_ntp_update d' = last_ntp_update d
           \<and> last_weather_update d' = last_weather_update d
           \<and> weather_temp d' = weather_temp d \<and> weather_desc d' = weather_desc d)"
    if "tick e v d = Ticked evs v' d'" for v evs v' d'
    using tick_telemetry [OF that] tick_offline [OF that] by blast
  from 1 2 3 4 5 6 7 show ?thesis by blast
qed

theorem background_tasks_witness:
  "weather_temp (sync_data good_reply_net (initial_device 0 None None)) = ''-3C''
   \<and> weather_desc (sync_data good_reply_net (initial_device 0 None None)) = ''Rainy''
   \<and> last_weather_update (sync_data good_reply_net (initial_device 0 None None)) = 1000
   \<and> sync_data (net (example_env 50 False)) (initial_device 0 None None) =
       initial_device 0 None None"
proof -
  let ?d = "initial_device 0 None None"
  have h: "connected good_reply_net \<and> 900000 < sync_now good_reply_net - last_weather_update ?d
        \<and> weather good_reply_net = Body (Some \<lparr>temperature = Some (- 3.5), weathercode = Some 61\<rparr>)"
    by (simp add: good_reply_net_def initial_device_def)
  have off: "\<not> connected (net (example_env 50 False))"
    by (simp add: example_env_def)
  have c: "char_of (51::nat) = CHR ''3''" by code_simp
  have s: "show_int (py_int_of_float (- 3.5)) @ ''C'' = ''-3C''"
    by (simp add: show_int_def py_int_of_float_def c)
  have w: "weather_text 61 = ''Rainy''" by (simp add: weather_text_def)
  have n: "sync_now good_reply_net = 1000" by (simp add: good_reply_net_def)
  note T = background_tasks [of good_reply_net ?d "- 3.5" 61]
  note U = background_tasks [of "net (example_env 50 False)" ?d]
  from T h have "weather_temp (sync_data good_reply_net ?d) = show_int (py_int_of_float (- 3.5)) @ ''C''
       \<and> weather_desc (sync_data good_reply_net ?d) = weather_text 61
       \<and> last_weather_update (sync_data good_reply_net ?d) = sync_now good_reply_net"
    by blast
  moreover from U off have "sync_data (net (example_env 50 False)) ?d = ?d" by blast
  ultimately show ?thesis unfolding s w n by simp
qed

text \<open>
  C5 as stated fails for an answer that carries a temperature and no weather code: the
  task fails (its time stamp stays, so it is retried), but the cached temperature has
  already been replaced.
\<close>

theorem weather_partial_update_counterexample:
  "connected partial_reply_net
   \<and> 900000 < sync_now partial_reply_net - last_weather_update (initial_device 0 None None)
   \<and> last_weather_update (sync_data partial_reply_net (initial_device 0 None None)) =
       last_weather_update (initial_device 0 None None)
   \<and> weather_temp (initial_device 0 None None) = ''--C''
   \<and> weather_temp (sync_data partial_reply_net (initial_device 0 None None)) = ''21C''"
proof -
  have c: "char_of (50::nat) = CHR ''2''" "char_of (49::nat) = CHR ''1''" by code_simp+
  show ?thesis
    by (simp add: partial_reply_net_def initial_device_def sync_data_def fetch_weather_def
        ticks_diff_def Let_def show_int_def py_int_of_float_def c)
qed

subsection \<open>Saving from the portal\<close>

lemma encoded_args:
  "save_arguments encoded_offset_request =
     Inr (''my net'', ''pw!'', ''51.5'', ''-0.1'', OffStr ''0%2E6'')"
  unfolding encoded_offset_request_def by code_simp

lemma encoded_float: "py_float_str ''0%2E6'' = FloatValueError"
  by code_simp

lemma encoded_kind:
  "contains ''GET /?s='' encoded_offset_request" "\<not> contains ''GET /logs'' encoded_offset_request"
  unfolding encoded_offset_request_def by code_simp+

lemma decoded_float: "url_decode ''0%2E6'' = Inr ''0.6''"
  by code_simp

lemma plain_float: "py_float_str ''0.55'' = FloatNum 0.55"
  by (simp add: py_float_str_def strip_def is_space_def is_digit_def dec_digits_val_def Let_def
      to_lower_def digitpart_def float_limit_def)

lemma save_arguments_eq:
  assumes "index_or (split_on CHR '' '' (hd (split_on (CHR 0x0A) req))) 1 = Inr target"
    and "index_or (split_on CHR ''?'' target) 1 = Inr query"
    and "query_dict (split_on CHR ''&'' query) = Inr p"
    and "p ''s'' = Some rs" "p ''p'' = Some rp" "p ''la'' = Some rla" "p ''lo'' = Some rlo"
    and "url_decode rs = Inr ds" "url_decode rp = Inr dp"
      "url_decode rla = Inr dla" "url_decode rlo = Inr dlo"
  shows "save_arguments req =
     Inr (ds, dp, dla, dlo, (case p ''os'' of None \<Rightarrow> OffNum 0.6 | Some x \<Rightarrow> OffStr x))"
  using assms by (simp add: save_arguments_def bind_err_def lookup_def)

lemma save_config_portal_ok:
  assumes "py_float io a = FloatNum f"
  shows "save_config io (Some ds) (Some dp) (Some dla) (Some dlo) None (Some a) d =
     (Returned, write_config io (log_calibration io f
        (d\<lparr>config := (config d)\<lparr>cfg_ssid := ds, cfg_pass := dp, cfg_lat := dla,
                                   cfg_lon := dlo, cfg_offset := f\<rparr>\<rparr>)))"
  using assms by (simp add: save_config_def)

lemma save_config_portal_bad:
  assumes "py_float io a = FloatValueError"
  shows "save_config io (Some ds) (Some dp) (Some dla) (Some dlo) None (Some a) d =
     (Raised ValueError,
      d\<lparr>config := (config d)\<lparr>cfg_ssid := ds, cfg_pass := dp, cfg_lat := dla, cfg_lon := dlo\<rparr>\<rparr>)"
  using assms by (simp add: save_config_def)

lemma write_log_files:
  "config (write_config io (log_calibration io f d)) = config d"
  "io_cfg_ok io \<Longrightarrow>
     config_file (write_config io (log_calibration io f d)) = Some (dump_config (config d))"
  "\<not> io_cfg_ok io \<Longrightarrow> config_file (write_config io (log_calibration io f d)) = config_file d"
  "io_log_ok io \<Longrightarrow> log_file (write_config io (log_calibration io f d)) =
     Some ((case log_file d of None \<Rightarrow> [] | Some es \<Rightarrow> es) @
       [((lt_year (io_clock io), lt_month (io_clock io), lt_mday (io_clock io),
          lt_hour (io_clock io), lt_minute (io_clock io)), f)])"
  "\<not> io_log_ok io \<Longrightarrow> log_file (write_config io (log_calibration io f d)) = log_file d"
  by (simp_all add: write_config_def log_calibration_def Let_def)

text \<open>
  C8, as amended. For a request with \<open>GET /?s=\<close> (and without \<open>GET /logs\<close>) the portal
  takes the query of the request line apart and percent-decodes four parameters: ssid,
  password, latitude and longitude. The offset is not decoded: the raw text of \<open>os\<close>, or
  0.6 when the parameter is absent, goes to \<open>float\<close>. When \<open>float\<close> returns a number,
  the five values are stored in the config; the config file is written and then holds
  the four decoded strings, the \<open>auto\<close> key as it was and the number under \<open>offset\<close>,
  so that a start from it loads exactly this config and this offset; one entry with
  the number is appended to the calibration log, whether or not an offset was given;
  the confirmation is sent and the device reboots. Each write is attempted once and a
  write that fails leaves its file as it was; when the confirmation cannot be sent
  there is no reboot. When \<open>float\<close> raises ValueError, the four strings have been stored
  in memory only, nothing is written or sent and the portal goes on. A request that
  lacks a parameter or holds a malformed escape changes nothing. All of this holds
  for whatever \<open>float\<close> the platform provides.
\<close>

theorem portal_save:
  "(index_or (split_on CHR '' '' (hd (split_on (CHR 0x0A) req))) 1 = Inr target
      \<and> index_or (split_on CHR ''?'' target) 1 = Inr query
      \<and> query_dict (split_on CHR ''&'' query) = Inr p
      \<and> p ''s'' = Some rs \<and> p ''p'' = Some rp \<and> p ''la'' = Some rla \<and> p ''lo'' = Some rlo
      \<and> url_decode rs = Inr ds \<and> url_decode rp = Inr dp
      \<and> url_decode rla = Inr dla \<and> url_decode rlo = Inr dlo \<longrightarrow>
    save_arguments req =
      Inr (ds, dp, dla, dlo, (case p ''os'' of None \<Rightarrow> OffNum 0.6 | Some x \<Rightarrow> OffStr x)))
   \<and> py_float io (OffStr x) = io_float io x
   \<and> py_float io (OffNum y) = FloatNum y
   \<and> (contains ''GET /?s='' req \<and> \<not> contains ''GET /logs'' req
       \<and> save_arguments req = Inr (ds, dp, dla, dlo, a) \<and> py_float io a = FloatNum f \<longrightarrow>
      (let d' = write_config io (log_calibration io f
                  (d\<lparr>config := (config d)\<lparr>cfg_ssid := ds, cfg_pass := dp, cfg_lat := dla,
                                             cfg_lon := dlo, cfg_offset := f\<rparr>\<rparr>))
       in handle_request io send_ok req d =
            (if send_ok then Reboot SavedRebooting d' else Swallowed OSError d')
          \<and> config d' = (config d)\<lparr>cfg_ssid := ds, cfg_pass := dp, cfg_lat := dla,
                                     cfg_lon := dlo, cfg_offset := f\<rparr>
          \<and> (io_cfg_ok io \<longrightarrow>
               config_file d' = Some (dump_config (config d'))
               \<and> config_file d' =
                   Some (Object \<lparr>sv_ssid = Some ds, sv_pass = Some dp, sv_lat = Some dla,
                                  sv_lon = Some dlo, sv_auto = Some (cfg_auto (config d)),
                                  sv_offset = Some f\<rparr>)
               \<and> config (startup io2 boot (config_file d') lf) = config d'
               \<and> dust_offset (startup io2 boot (config_file d') lf) = f)
          \<and> (\<not> io_cfg_ok io \<longrightarrow> config_file d' = config_file d)
          \<and> (io_log_ok io \<longrightarrow> log_file d' =
                Some ((case log_file d of None \<Rightarrow> [] | Some es \<Rightarrow> es) @
                  [((lt_year (io_clock io), lt_month (io_clock io), lt_mday (io_clock io),
                     lt_hour (io_clock io), lt_minute (io_clock io)), f)]))
          \<and> (\<not> io_log_ok io \<longrightarrow> log_file d' = log_file d)))
   \<and> (contains ''GET /?s='' req \<and> \<not> contains ''GET /logs'' req
       \<and> save_arguments req = Inr (ds, dp, dla, dlo, a) \<and> py_float io a = FloatValueError \<longrightarrow>
      handle_request io send_ok req d =
        Swallowed ValueError
          (d\<lparr>config := (config d)\<lparr>cfg_ssid := ds, cfg_pass := dp, cfg_lat := dla,
                                     cfg_lon := dlo\<rparr>\<rparr>))
   \<and> (contains ''GET /?s='' req \<and> \<not> contains ''GET /logs'' req
       \<and> save_arguments req = Inl err \<longrightarrow>
      handle_request io send_ok req d = Swallowed err d)"
proof -
  have 1: "save_arguments req =
      Inr (ds, dp, dla, dlo, (case p ''os'' of None \<Rightarrow> OffNum 0.6 | Some x \<Rightarrow> OffStr x))"
    if "index_or (split_on CHR '' '' (hd (split_on (CHR 0x0A) req))) 1 = Inr target
      \<and> index_or (split_on CHR ''?'' target) 1 = Inr query
      \<and> query_dict (split_on CHR ''&'' query) = Inr p
      \<and> p ''s'' = Some rs \<and> p ''p'' = Some rp \<and> p ''la'' = Some rla \<and> p ''lo'' = Some rlo
      \<and> url_decode rs = Inr ds \<and> url_decode rp = Inr dp
      \<and> url_decode rla = Inr dla \<and> url_decode rlo = Inr dlo"
    using that save_arguments_eq [of req target query p rs rp rla rlo ds dp dla dlo] by blast
  have 2: "py_float io (OffStr x) = io_float io x" "py_float io (OffNum y) = FloatNum y"
    by simp_all
  define c' where "c' = (config d)\<lparr>cfg_ssid := ds, cfg_pass := dp, cfg_lat := dla,
                                     cfg_lon := dlo, cfg_offset := f\<rparr>"
  define d' where "d' = write_config io (log_calibration io f (d\<lparr>config := c'\<rparr>))"
  have 3: "handle_request io send_ok req d =
            (if send_ok then Reboot SavedRebooting d' else Swallowed OSError d')"
    if "contains ''GET /?s='' req \<and> \<not> contains ''GET /logs'' req
       \<and> save_arguments req = Inr (ds, dp, dla, dlo, a) \<and> py_float io a = FloatNum f"
    using that by (simp add: handle_request_def save_config_portal_ok d'_def c'_def)
  have 31: "config d' = c'"
    by (simp add: d'_def write_log_files(1))
  have f1: "config_file d' = Some (dump_config c')" if "io_cfg_ok io"
    using that by (simp add: d'_def write_log_files(2))
  have 32: "config_file d' = Some (dump_config (config d'))
       \<and> config_file d' =
           Some (Object \<lparr>sv_ssid = Some ds, sv_pass = Some dp, sv_lat = Some dla,
                          sv_lon = Some dlo, sv_auto = Some (cfg_auto (config d)),
                          sv_offset = Some f\<rparr>)
       \<and> config (startup io2 boot (config_file d') lf) = config d'
       \<and> dust_offset (startup io2 boot (config_file d') lf) = f" if ok: "io_cfg_ok io"
  proof -
    have "config_file d' =
           Some (Object \<lparr>sv_ssid = Some ds, sv_pass = Some dp, sv_lat = Some dla,
                          sv_lon = Some dlo, sv_auto = Some (cfg_auto (config d)),
                          sv_offset = Some f\<rparr>)"
      unfolding f1 [OF ok] by (simp add: dump_config_fields c'_def)
    moreover have "config (startup io2 boot (config_file d') lf) = config d'"
      unfolding f1 [OF ok] 31 by (rule startup_dump_config(1))
    moreover have "dust_offset (startup io2 boot (config_file d') lf) = f"
      unfolding f1 [OF ok] by (simp add: startup_dump_config(2) c'_def)
    moreover have "config_file d' = Some (dump_config (config d'))"
      unfolding 31 by (rule f1 [OF ok])
    ultimately show ?thesis by blast
  qed
  have 33: "config_file d' = config_file d" if "\<not> io_cfg_ok io"
    using that by (simp add: d'_def write_log_files(3))
  have 34: "log_file d' =
                Some ((case log_file d of None \<Rightarrow> [] | Some es \<Rightarrow> es) @
                  [((lt_year (io_clock io), lt_month (io_clock io), lt_mday (io_clock io),
                     lt_hour (io_clock io), lt_minute (io_clock io)), f)])" if "io_log_ok io"
    using that by (simp add: d'_def write_log_files(4))
  have 35: "log_file d' = log_file d" if "\<not> io_log_ok io"
    using that by (simp add: d'_def write_log_files(5))
  have 4: "handle_request io send_ok req d =
        Swallowed ValueError
          (d\<lparr>config := (config d)\<lparr>cfg_ssid := ds, cfg_pass := dp, cfg_lat := dla,
                                     cfg_lon := dlo\<rparr>\<rparr>)"
    if "contains ''GET /?s='' req \<and> \<not> contains ''GET /logs'' req
       \<and> save_arguments req = Inr (ds, dp, dla, dlo, a) \<and> py_float io a = FloatValueError"
    using that by (simp add: handle_request_def save_config_portal_bad)
  have 5: "handle_request io send_ok req d = Swallowed err d"
    if "contains ''GET /?s='' req \<and> \<not> contains ''GET /logs'' req
       \<and> save_arguments req = Inl err"
    using that by (simp add: handle_request_def)
  from 1 2 3 31 32 33 34 35 4 5 show ?thesis
    unfolding Let_def d'_def [symmetric] c'_def [symmetric] by blast
qed

lemma plain_args:
  "save_arguments plain_request =
     Inr (''my net'', ''pw!'', ''51.5'', ''-0.1'', OffStr ''0.55'')"
  unfolding plain_request_def by code_simp

lemma plain_kind:
  "contains ''GET /?s='' plain_request" "\<not> contains ''GET /logs'' plain_request"
  unfolding plain_request_def by code_simp+

theorem portal_save_witness:
  "\<exists>d'. handle_request example_io True plain_request (initial_device 0 None None) =
          Reboot SavedRebooting d'
        \<and> config d' = \<lparr>cfg_ssid = ''my net'', cfg_pass = ''pw!'', cfg_lat = ''51.5'',
                        cfg_lon = ''-0.1'', cfg_auto = False, cfg_offset = 0.55\<rparr>
        \<and> config_file d' =
            Some (Object \<lparr>sv_ssid = Some ''my net'', sv_pass = Some ''pw!'', sv_lat = Some ''51.5'',
                           sv_lon = Some ''-0.1'', sv_auto = Some False, sv_offset = Some 0.55\<rparr>)
        \<and> dust_offset (startup example_io 9 (config_file d') None) = 0.55
        \<and> log_file d' = Some [((2026, 1, 2, 3, 4), 0.55)]"
proof -
  let ?d = "initial_device 0 None None"
  let ?d' = "write_config example_io (log_calibration example_io 0.55
                  (?d\<lparr>config := (config ?d)\<lparr>cfg_ssid := ''my net'', cfg_pass := ''pw!'',
                       cfg_lat := ''51.5'', cfg_lon := ''-0.1'', cfg_offset := 0.55\<rparr>\<rparr>))"
  have f: "py_float example_io (OffStr ''0.55'') = FloatNum 0.55"
    by (simp add: example_io_def plain_float)
  have io: "io_cfg_ok example_io" "io_log_ok example_io"
    "io_clock example_io = \<lparr>lt_year = 2026, lt_month = 1, lt_mday = 2, lt_hour = 3,
        lt_minute = 4, lt_second = 5\<rparr>"
    by (simp_all add: example_io_def)
  have a0: "cfg_auto (config ?d) = False" by (simp add: initial_device_def)
  note T = portal_save [where req = plain_request and ds = "''my net''" and dp = "''pw!''"
      and dla = "''51.5''" and dlo = "''-0.1''" and a = "OffStr ''0.55''" and f = "0.55"
      and io = example_io and d = ?d and send_ok = True and ?io2.0 = example_io and boot = 9
      and lf = None, unfolded Let_def]
  from T plain_kind plain_args f have
    1: "handle_request example_io True plain_request ?d = Reboot SavedRebooting ?d'"
    by simp
  from T plain_kind plain_args f have
    2: "config ?d' = (config ?d)\<lparr>cfg_ssid := ''my net'', cfg_pass := ''pw!'',
                       cfg_lat := ''51.5'', cfg_lon := ''-0.1'', cfg_offset := 0.55\<rparr>"
    by blast
  from T plain_kind plain_args f io(1) have
    3: "config_file ?d' =
          Some (Object \<lparr>sv_ssid = Some ''my net'', sv_pass = Some ''pw!'', sv_lat = Some ''51.5'',
                         sv_lon = Some ''-0.1'', sv_auto = Some (cfg_auto (config ?d)),
                         sv_offset = Some 0.55\<rparr>)" by blast
  from T plain_kind plain_args f io(1) have
    r: "dust_offset (startup example_io 9 (config_file ?d') None) = 0.55" by blast
  from T plain_kind plain_args f io(2) have
    4: "log_file ?d' = Some ((case log_file ?d of None \<Rightarrow> [] | Some es \<Rightarrow> es) @
                  [((lt_year (io_clock example_io), lt_month (io_clock example_io),
                     lt_mday (io_clock example_io), lt_hour (io_clock example_io),
                     lt_minute (io_clock example_io)), 0.55)])" by blast
  have c2: "config ?d' = \<lparr>cfg_ssid = ''my net'', cfg_pass = ''pw!'', cfg_lat = ''51.5'',
                        cfg_lon = ''-0.1'', cfg_auto = False, cfg_offset = 0.55\<rparr>"
    unfolding 2 by (simp add: initial_device_def)
  have c3: "config_file ?d' =
            Some (Object \<lparr>sv_ssid = Some ''my net'', sv_pass = Some ''pw!'', sv_lat = Some ''51.5'',
                           sv_lon = Some ''-0.1'', sv_auto = Some False, sv_offset = Some 0.55\<rparr>)"
    unfolding 3 a0 by (rule refl)
  have l4: "log_file ?d' = Some [((2026, 1, 2, 3, 4), 0.55)]"
    unfolding 4 io(3) by (simp add: initial_device_def)
  from 1 c2 c3 r l4 show ?thesis by blast
qed

text \<open>
  C8 as stated fails for the offset: \<open>os=0%2E6\<close> decodes to 0.6, but the code hands the
  raw text to \<open>float\<close>, which raises; nothing is saved or sent and there is no reboot.
\<close>

theorem portal_offset_not_decoded_counterexample:
  "contains ''GET /?s='' encoded_offset_request
   \<and> handle_request example_io True encoded_offset_request (initial_device 0 None None) =
       Swallowed ValueError
         ((initial_device 0 None None)\<lparr>config := (config (initial_device 0 None None))
             \<lparr>cfg_ssid := ''my net'', cfg_pass := ''pw!'', cfg_lat := ''51.5'',
              cfg_lon := ''-0.1''\<rparr>\<rparr>)
   \<and> url_decode ''0%2E6'' = Inr ''0.6''
   \<and> py_float_str ''0.6'' = FloatNum 0.6"
proof -
  have f: "py_float example_io (OffStr ''0%2E6'') = FloatValueError"
    by (simp add: example_io_def encoded_float)
  have 1: "handle_request example_io True encoded_offset_request (initial_device 0 None None) =
       Swallowed ValueError
         ((initial_device 0 None None)\<lparr>config := (config (initial_device 0 None None))
             \<lparr>cfg_ssid := ''my net'', cfg_pass := ''pw!'', cfg_lat := ''51.5'',
              cfg_lon := ''-0.1''\<rparr>\<rparr>)"
    by (simp add: handle_request_def encoded_kind encoded_args save_config_portal_bad [OF f])
  have 2: "py_float_str ''0.6'' = FloatNum 0.6"
    by (simp add: py_float_str_def strip_def is_space_def is_digit_def dec_digits_val_def Let_def
        to_lower_def digitpart_def float_limit_def)
  from 1 2 encoded_kind(1) decoded_float show ?thesis by blast
qed

end
